theory Spec2Isabelle
  imports Main "HOL-Library.Word"
begin

section \<open>Error values (nexthink/client/errors.go)\<close>

text \<open>
  The HTTP status codes of errors.go. Go's \<open>int\<close> is only compared here, never
  computed with, so status codes are integers.
\<close>

definition StatusOK :: int where "StatusOK = 200"
definition StatusCreated :: int where "StatusCreated = 201"
definition StatusBadRequest :: int where "StatusBadRequest = 400"
definition StatusUnauthorized :: int where "StatusUnauthorized = 401"
definition StatusForbidden :: int where "StatusForbidden = 403"
definition StatusNotFound :: int where "StatusNotFound = 404"
definition StatusConflict :: int where "StatusConflict = 409"
definition StatusUnprocessableEntity :: int where "StatusUnprocessableEntity = 422"
definition StatusTooManyRequests :: int where "StatusTooManyRequests = 429"
definition StatusInternalServerError :: int where "StatusInternalServerError = 500"
definition StatusBadGateway :: int where "StatusBadGateway = 502"
definition StatusServiceUnavailable :: int where "StatusServiceUnavailable = 503"
definition StatusGatewayTimeout :: int where "StatusGatewayTimeout = 504"

text \<open>The struct \<open>APIError\<close>, field by field.\<close>

record APIError =
  Code :: string
  Message :: string
  Details :: string
  StatusCode :: int
  Status :: string
  Endpoint :: string
  Method :: string

text \<open>
  The struct \<open>genericErrorResponse\<close>; its fields carry the suffix \<open>_g\<close> because
  \<open>Message\<close> and \<open>Code\<close> are already fields of \<open>APIError\<close>. The field
  \<open>Error\<close> is a pointer: \<open>None\<close> is \<open>nil\<close>.
\<close>

record genericErrorResponse =
  Error_g :: "APIError option"
  Message_g :: string
  Code_g :: string

text \<open>
  Go's error values, as far as this package and its callers build them. An argument of a
  format string is kept beside the format instead of being printed into it:
  \<^item> \<open>APIErrorPtr p\<close> is an error of dynamic type \<open>*APIError\<close>; the pointer \<open>p\<close>
    may be \<open>nil\<close> (\<open>None\<close>);
  \<^item> \<open>FmtError f args\<close> is \<open>fmt.Errorf(f, args...)\<close> for a format without \<open>%w\<close>;
  \<^item> \<open>WrapError f args e\<close> is \<open>fmt.Errorf(f, args..., e)\<close> for a format whose last
    verb is \<open>%w\<close>: it wraps \<open>e\<close>;
  \<^item> \<open>OtherError m\<close> is any error of another package (a transport failure, a JSON
    syntax error, a cancelled context).
  The interface type \<open>error\<close> itself is \<open>error option\<close>: \<open>None\<close> is \<open>nil\<close>.
\<close>

datatype fmt_arg = ArgInt int | ArgString string | ArgDuration "64 word"

datatype error =
    APIErrorPtr "APIError option"
  | FmtError string "fmt_arg list"
  | WrapError string "fmt_arg list" error
  | OtherError string

datatype panic = NilPointerDereference

subsection \<open>ParseErrorResponse\<close>

text \<open>
  \<open>json.Unmarshal(body, &errResp)\<close> belongs to the standard library; the decoder is the
  parameter \<open>unmarshal\<close>, with \<open>None\<close> for \<open>err != nil\<close>. The logger only
  writes log lines and is left out. The function always returns a non-nil
  \<open>*APIError\<close>.
\<close>

definition getDefaultErrorMessage :: "int \<Rightarrow> string" where
  "getDefaultErrorMessage statusCode =
     (if statusCode = StatusBadRequest then ''The API request is invalid or malformed''
      else if statusCode = StatusUnauthorized then ''Authentication required or invalid credentials''
      else if statusCode = StatusForbidden then ''You are not allowed to perform the requested operation''
      else if statusCode = StatusNotFound then ''The requested resource was not found''
      else if statusCode = StatusConflict then ''The resource already exists''
      else if statusCode = StatusUnprocessableEntity then ''Validation error''
      else if statusCode = StatusTooManyRequests then ''Rate limit exceeded. Too many requests in a given time period''
      else if statusCode = StatusInternalServerError then ''Internal server error''
      else if statusCode = StatusBadGateway then ''Bad gateway''
      else if statusCode = StatusServiceUnavailable then ''Service temporarily unavailable. Retry might work''
      else if statusCode = StatusGatewayTimeout then ''The operation took too long to complete''
      else ''Unknown error'')"

text \<open>The assignments made from a decoded \<open>errResp\<close> (the body of the first \<open>if\<close>).\<close>

definition fillFromResponse :: "genericErrorResponse \<Rightarrow> APIError \<Rightarrow> APIError" where
  "fillFromResponse errResp apiError =
     (case Error_g errResp of
        Some e \<Rightarrow> apiError\<lparr>Code := Code e, Message := Message e, Details := Details e\<rparr>
      | None \<Rightarrow>
          (let a1 = (if Message_g errResp \<noteq> [] then apiError\<lparr>Message := Message_g errResp\<rparr>
                     else apiError)
           in if Code_g errResp \<noteq> [] then a1\<lparr>Code := Code_g errResp\<rparr> else a1))"

text \<open>
  The end of the function: the raw body becomes the message, and the default message of
  the status code when the body is empty.
\<close>

definition rawBodyFallback :: "string \<Rightarrow> int \<Rightarrow> APIError \<Rightarrow> APIError" where
  "rawBodyFallback body statusCode apiError =
     (let a1 = apiError\<lparr>Message := body\<rparr>
      in if Message a1 = [] then a1\<lparr>Message := getDefaultErrorMessage statusCode\<rparr> else a1)"

definition ParseErrorResponse ::
  "(string \<Rightarrow> genericErrorResponse option) \<Rightarrow> string \<Rightarrow> int \<Rightarrow> string \<Rightarrow> string \<Rightarrow> string \<Rightarrow> error"
where
  "ParseErrorResponse unmarshal body statusCode status method endpoint =
     (let apiError = \<lparr>Code = [], Message = [], Details = [], StatusCode = statusCode,
                       Status = status, Endpoint = endpoint, Method = method\<rparr>
      in case unmarshal body of
           Some errResp \<Rightarrow>
             (let a1 = fillFromResponse errResp apiError
              in if Code a1 \<noteq> [] \<or> Message a1 \<noteq> [] then APIErrorPtr (Some a1)
                 else APIErrorPtr (Some (rawBodyFallback body statusCode a1)))
         | None \<Rightarrow> APIErrorPtr (Some (rawBodyFallback body statusCode apiError)))"

subsection \<open>The classification predicates\<close>

text \<open>
  The type assertion \<open>err.(*APIError)\<close>: it succeeds exactly on the dynamic type
  \<open>*APIError\<close>, also for a nil pointer of that type, and does not look through
  wrapping. Reading \<open>apiErr.StatusCode\<close> through a nil pointer panics.
\<close>

fun assertAPIError :: "error option \<Rightarrow> APIError option option" where
  "assertAPIError (Some (APIErrorPtr p)) = Some p"
| "assertAPIError _ = None"

definition IsBadRequest :: "error option \<Rightarrow> panic + bool" where
  "IsBadRequest err =
     (case assertAPIError err of
        Some p \<Rightarrow>
          (case p of
             Some apiErr \<Rightarrow>
               Inr (StatusCode apiErr = StatusBadRequest)
           | None \<Rightarrow> Inl NilPointerDereference)
      | None \<Rightarrow> Inr False)"

definition IsUnauthorized :: "error option \<Rightarrow> panic + bool" where
  "IsUnauthorized err =
     (case assertAPIError err of
        Some p \<Rightarrow>
          (case p of
             Some apiErr \<Rightarrow>
               Inr (StatusCode apiErr = StatusUnauthorized)
           | None \<Rightarrow> Inl NilPointerDereference)
      | None \<Rightarrow> Inr False)"

definition IsForbidden :: "error option \<Rightarrow> panic + bool" where
  "IsForbidden err =
     (case assertAPIError err of
        Some p \<Rightarrow>
          (case p of
             Some apiErr \<Rightarrow>
               Inr (StatusCode apiErr = StatusForbidden)
           | None \<Rightarrow> Inl NilPointerDereference)
      | None \<Rightarrow> Inr False)"

definition IsNotFound :: "error option \<Rightarrow> panic + bool" where
  "IsNotFound err =
     (case assertAPIError err of
        Some p \<Rightarrow>
          (case p of
             Some apiErr \<Rightarrow>
               Inr (StatusCode apiErr = StatusNotFound)
           | None \<Rightarrow> Inl NilPointerDereference)
      | None \<Rightarrow> Inr False)"

definition IsConflict :: "error option \<Rightarrow> panic + bool" where
  "IsConflict err =
     (case assertAPIError err of
        Some p \<Rightarrow>
          (case p of
             Some apiErr \<Rightarrow>
               Inr (StatusCode apiErr = StatusConflict)
           | None \<Rightarrow> Inl NilPointerDereference)
      | None \<Rightarrow> Inr False)"

definition IsValidationError :: "error option \<Rightarrow> panic + bool" where
  "IsValidationError err =
     (case assertAPIError err of
        Some p \<Rightarrow>
          (case p of
             Some apiErr \<Rightarrow>
               Inr (StatusCode apiErr = StatusUnprocessableEntity)
           | None \<Rightarrow> Inl NilPointerDereference)
      | None \<Rightarrow> Inr False)"

definition IsRateLimited :: "error option \<Rightarrow> panic + bool" where
  "IsRateLimited err =
     (case assertAPIError err of
        Some p \<Rightarrow>
          (case p of
             Some apiErr \<Rightarrow>
               Inr (StatusCode apiErr = StatusTooManyRequests)
           | None \<Rightarrow> Inl NilPointerDereference)
      | None \<Rightarrow> Inr False)"

definition IsServerError :: "error option \<Rightarrow> panic + bool" where
  "IsServerError err =
     (case assertAPIError err of
        Some p \<Rightarrow>
          (case p of
             Some apiErr \<Rightarrow>
               Inr (StatusCode apiErr \<ge> 500 \<and> StatusCode apiErr < 600)
           | None \<Rightarrow> Inl NilPointerDereference)
      | None \<Rightarrow> Inr False)"

definition IsTransient :: "error option \<Rightarrow> panic + bool" where
  "IsTransient err =
     (case assertAPIError err of
        Some p \<Rightarrow>
          (case p of
             Some apiErr \<Rightarrow>
               Inr (StatusCode apiErr = StatusServiceUnavailable \<or>
                  StatusCode apiErr = StatusGatewayTimeout)
           | None \<Rightarrow> Inl NilPointerDereference)
      | None \<Rightarrow> Inr False)"

section \<open>The OAuth2 token manager (package client)\<close>

subsection \<open>Time\<close>

text \<open>
  The standard library's \<open>time.Time\<close> and \<open>time.Duration\<close>. An instant is an
  integer number of nanoseconds since the Unix epoch on one time line, with
  \<open>t.Add(d)\<close> as addition and \<open>t.Before(u)\<close> as \<open><\<close>. A \<open>Duration\<close> is an
  \<open>int64\<close> of nanoseconds: its arithmetic wraps around. \<open>time.Time{}\<close> is
  January 1, year 1, 00:00 UTC.
\<close>

type_synonym Time = int
type_synonym Duration = "64 word"

definition Second :: Duration where "Second = 1000000000"
definition Minute :: Duration where "Minute = 60 * Second"

definition Time_Add :: "Time \<Rightarrow> Duration \<Rightarrow> Time" where
  "Time_Add t d = t + sint d"

definition Time_Before :: "Time \<Rightarrow> Time \<Rightarrow> bool" where
  "Time_Before t u = (t < u)"

definition zeroTime :: Time where
  "zeroTime = - 62135596800 * 1000000000"

subsection \<open>Constants (nexthink/client/response.go)\<close>

definition DefaultTokenURLTemplate :: "string \<Rightarrow> string \<Rightarrow> string" where
  \<comment> \<open>\<open>fmt.Sprintf("https://%s-login.%s.nexthink.cloud/oauth2/default/v1/token", a, b)\<close>\<close>
  "DefaultTokenURLTemplate a b =
     ''https://'' @ a @ ''-login.'' @ b @ ''.nexthink.cloud/oauth2/default/v1/token''"

definition TokenRefreshBuffer :: Duration where "TokenRefreshBuffer = 120"
definition GrantTypeClientCredentials :: string where
  "GrantTypeClientCredentials = ''client_credentials''"
definition ScopeServiceIntegration :: string where
  "ScopeServiceIntegration = ''service:integration''"
definition ContentTypeFormURLEncoded :: string where
  "ContentTypeFormURLEncoded = ''application/x-www-form-urlencoded''"

subsection \<open>Data\<close>

record AuthConfig =
  ClientID :: string
  ClientSecret :: string
  Instance :: string
  Region :: string
  TokenURL :: string
  Scope :: string

text \<open>
  \<open>TokenResponse\<close>; \<open>ExpiresIn\<close> is a Go \<open>int\<close>, 64 bits wide on the 64-bit
  targets. The field \<open>Scope\<close> is \<open>Scope_t\<close> here (\<open>AuthConfig\<close> has a \<open>Scope\<close>).
\<close>

record TokenResponse =
  TokenType :: string
  ExpiresIn :: "64 word"
  AccessToken :: string
  Scope_t :: string

text \<open>
  \<open>TokenManager\<close> without its logger, its mutex and its HTTP client: the client is
  the parameter \<open>post\<close> of \<open>RefreshToken\<close>. \<open>currentToken\<close> is a pointer,
  \<open>None\<close> is \<open>nil\<close>.
\<close>

record TokenManager =
  authConfig :: AuthConfig
  currentToken :: "TokenResponse option"
  tokenExpiry :: Time
  refreshBuffer :: Duration

text \<open>
  A request as \<open>RefreshToken\<close> builds it on the resty client (method, URL, the
  headers set and the form data, each in the order of the source), and a response as
  the code reads it (\<open>StatusCode()\<close>, \<open>Status()\<close>, \<open>String()\<close>).
\<close>

record Request =
  ReqMethod :: string
  ReqURL :: string
  ReqHeader :: "(string \<times> string) list"
  ReqFormData :: "(string \<times> string) list"

record Response =
  RespStatusCode :: int
  RespStatus :: string
  RespBody :: string

definition IsError :: "Response \<Rightarrow> bool" where
  \<comment> \<open>resty's \<open>Response.IsError\<close>: the status code is above 399\<close>
  "IsError resp = (RespStatusCode resp > 399)"

subsection \<open>AuthConfig\<close>

definition NewTokenManager :: "AuthConfig \<Rightarrow> TokenManager" where
  "NewTokenManager cfg =
     \<lparr>authConfig = cfg, currentToken = None, tokenExpiry = zeroTime,
      refreshBuffer = TokenRefreshBuffer * Second\<rparr>"

definition GetTokenURL :: "AuthConfig \<Rightarrow> string" where
  "GetTokenURL a =
     (if TokenURL a \<noteq> [] then TokenURL a
      else DefaultTokenURLTemplate (Instance a) (Region a))"

definition GetScope :: "AuthConfig \<Rightarrow> string" where
  "GetScope a = (if Scope a \<noteq> [] then Scope a else ScopeServiceIntegration)"

text \<open>
  \<open>base64.StdEncoding.EncodeToString\<close> of the standard library (RFC 4648, with
  padding): three bytes become four characters of the alphabet.
\<close>

definition encodeStd :: string where
  "encodeStd = ''ABCDEFGHIJKLMNOPQRSTUVWXYZabcdefghijklmnopqrstuvwxyz0123456789+/''"

fun EncodeToString :: "string \<Rightarrow> string" where
  "EncodeToString (a # b # c # rest) =
     (let v = (of_char a :: nat) * 65536 + of_char b * 256 + of_char c
      in [encodeStd ! (v div 262144), encodeStd ! (v div 4096 mod 64),
          encodeStd ! (v div 64 mod 64), encodeStd ! (v mod 64)] @ EncodeToString rest)"
| "EncodeToString [a, b] =
     (let v = (of_char a :: nat) * 65536 + of_char b * 256
      in [encodeStd ! (v div 262144), encodeStd ! (v div 4096 mod 64),
          encodeStd ! (v div 64 mod 64), CHR ''=''])"
| "EncodeToString [a] =
     (let v = (of_char a :: nat) * 65536
      in [encodeStd ! (v div 262144), encodeStd ! (v div 4096 mod 64), CHR ''='', CHR ''=''])"
| "EncodeToString [] = []"

definition GenerateBasicAuth :: "AuthConfig \<Rightarrow> string" where
  "GenerateBasicAuth a = EncodeToString (ClientID a @ '':'' @ ClientSecret a)"

subsection \<open>TokenManager\<close>

text \<open>
  The test \<open>tm.currentToken != nil && time.Now().Add(tm.refreshBuffer).Before(tm.tokenExpiry)\<close>
  together with the read of \<open>tm.currentToken.AccessToken\<close> that follows it, as
  \<open>GetToken\<close> and \<open>RefreshToken\<close> both write it; \<open>now\<close> is what \<open>time.Now()\<close>
  returns there.
\<close>

definition validToken :: "TokenManager \<Rightarrow> Time \<Rightarrow> string option" where
  "validToken tm now =
     (case currentToken tm of
        Some tok \<Rightarrow>
          if Time_Before (Time_Add now (refreshBuffer tm)) (tokenExpiry tm)
          then Some (AccessToken tok) else None
      | None \<Rightarrow> None)"

text \<open>The request \<open>RefreshToken\<close> sends.\<close>

definition tokenRequest :: "AuthConfig \<Rightarrow> Request" where
  "tokenRequest cfg =
     (let tokenURL = GetTokenURL cfg;
          basicAuth = GenerateBasicAuth cfg;
          scope = GetScope cfg
      in \<lparr>ReqMethod = ''POST'', ReqURL = tokenURL,
          ReqHeader = [(''Content-Type'', ContentTypeFormURLEncoded),
                       (''Authorization'', ''Basic '' @ basicAuth)],
          ReqFormData = [(''grant_type'', GrantTypeClientCredentials), (''scope'', scope)]\<rparr>)"

text \<open>
  \<open>RefreshToken\<close>, under the manager's lock. The parameters are the world the call
  runs in: \<open>post\<close> is the token endpoint behind the HTTP client (\<open>Inl\<close> a transport
  error), \<open>unmarshal\<close> is \<open>json.Unmarshal\<close> into a \<open>TokenResponse\<close>,
  \<open>nowC\<close> and \<open>nowS\<close> are the readings of \<open>time.Now()\<close> at the check and when
  the token is stored. The result is the returned pair (\<open>Inl\<close> a non-nil error), the
  manager afterwards, and the requests sent to the token endpoint.
\<close>

definition RefreshToken ::
  "(Request \<Rightarrow> error + Response) \<Rightarrow> (string \<Rightarrow> error + TokenResponse) \<Rightarrow> Time \<Rightarrow> Time \<Rightarrow>
   TokenManager \<Rightarrow> (error + string) \<times> TokenManager \<times> Request list"
where
  "RefreshToken post unmarshal nowC nowS tm =
     (case validToken tm nowC of
        Some token \<Rightarrow> (Inr token, tm, [])
      | None \<Rightarrow>
          (let req = tokenRequest (authConfig tm) in
           case post req of
             Inl err \<Rightarrow> (Inl (WrapError ''failed to request access token: %w'' [] err), tm, [req])
           | Inr resp \<Rightarrow>
               if IsError resp
               then (Inl (FmtError ''token request failed with status %d: %s''
                            [ArgInt (RespStatusCode resp), ArgString (RespBody resp)]), tm, [req])
               else
                 (case unmarshal (RespBody resp) of
                    Inl err \<Rightarrow>
                      (Inl (WrapError ''failed to parse token response: %w'' [] err), tm, [req])
                  | Inr tokenResp \<Rightarrow>
                      (Inr (AccessToken tokenResp),
                       tm\<lparr>currentToken := Some tokenResp,
                          tokenExpiry := Time_Add nowS (ExpiresIn tokenResp * Second)\<rparr>,
                       [req]))))"

text \<open>
  \<open>GetToken\<close>: the test under the read lock at the reading \<open>nowR\<close>, then
  \<open>RefreshToken\<close>. Between the release of the read lock and the acquisition of the
  write lock other goroutines may change the manager: \<open>others\<close> is what they do to it
  (the identity when the call runs alone).
\<close>

definition GetToken ::
  "(Request \<Rightarrow> error + Response) \<Rightarrow> (string \<Rightarrow> error + TokenResponse) \<Rightarrow> Time \<Rightarrow>
   (TokenManager \<Rightarrow> TokenManager) \<Rightarrow> Time \<Rightarrow> Time \<Rightarrow>
   TokenManager \<Rightarrow> (error + string) \<times> TokenManager \<times> Request list"
where
  "GetToken post unmarshal nowR others nowC nowS tm =
     (case validToken tm nowR of
        Some token \<Rightarrow> (Inr token, tm, [])
      | None \<Rightarrow> RefreshToken post unmarshal nowC nowS (others tm))"

definition InvalidateToken :: "TokenManager \<Rightarrow> TokenManager" where
  "InvalidateToken tm = tm\<lparr>currentToken := None, tokenExpiry := zeroTime\<rparr>"

section \<open>Waiting for an export (nexthink/services/nql)\<close>

subsection \<open>Constants and validation (constants.go, validators.go, helpers.go)\<close>

definition EndpointNqlStatus :: string where "EndpointNqlStatus = ''/api/v1/nql/status''"
definition ExportStatusSubmitted :: string where "ExportStatusSubmitted = ''SUBMITTED''"
definition ExportStatusInProgress :: string where "ExportStatusInProgress = ''IN_PROGRESS''"
definition ExportStatusCompleted :: string where "ExportStatusCompleted = ''COMPLETED''"
definition ExportStatusError :: string where "ExportStatusError = ''ERROR''"
definition MaxQueryIDLength :: int where "MaxQueryIDLength = 256"

text \<open>
  Modelled from the spec: the declaration of the type \<open>ExportStatusResponse\<close> is not
  among the sources; the status call "returns \<open>{status, resultsFileUrl?,
  errorDescription?}\<close>". The code under study reads the field \<open>Status\<close> only
  (\<open>Status_e\<close> here: \<open>APIError\<close> has a \<open>Status\<close>).
\<close>

record ExportStatusResponse =
  Status_e :: string
  ResultsFileURL :: string
  ErrorDescription :: string

definition isTerminalStatus :: "string \<Rightarrow> bool" where
  "isTerminalStatus status =
     (if status = ExportStatusCompleted \<or> status = ExportStatusError then True else False)"

text \<open>\<open>ValidateExportID\<close>; \<open>None\<close> is the \<open>nil\<close> error, \<open>len\<close> counts bytes.\<close>

definition ValidateExportID :: "string \<Rightarrow> error option" where
  "ValidateExportID exportID =
     (if exportID = [] then Some (FmtError ''export ID cannot be empty'' [])
      else if int (length exportID) > MaxQueryIDLength
      then Some (FmtError ''export ID exceeds maximum length of %d characters''
                   [ArgInt MaxQueryIDLength])
      else None)"

subsection \<open>GetExportStatus and WaitForExport (crud.go)\<close>

text \<open>
  What a run does that its caller can observe besides the result: a GET on the status
  endpoint, and a tick of the ticker taken in the \<open>select\<close> (one poll interval waited
  for).
\<close>

datatype poll_event = StatusCall string | TickWait Duration

text \<open>
  The world of a run: \<open>get k endpoint headers\<close> is what the \<open>k\<close>-th call of
  \<open>s.client.Get\<close> of this run returns for that request (\<open>Inl\<close> its error), and a list
  of \<open>select_case\<close> says which ready case each \<open>select\<close> takes: \<open>CtxDone\<close> is
  \<open>timeoutCtx.Done()\<close> (the timeout, or the parent context cancelled), \<open>TickerC\<close> is
  the ticker's channel.
\<close>

datatype select_case = CtxDone | TickerC

definition GetExportStatus ::
  "(nat \<Rightarrow> string \<Rightarrow> (string \<times> string) list \<Rightarrow> error + ExportStatusResponse) \<Rightarrow> nat \<Rightarrow> string \<Rightarrow>
   (error + ExportStatusResponse) \<times> poll_event list"
where
  "GetExportStatus get k exportID =
     (case ValidateExportID exportID of
        Some err \<Rightarrow> (Inl err, [])
      | None \<Rightarrow>
          (let endpoint = EndpointNqlStatus @ ''/'' @ exportID;
               headers = [(''Accept'', ''application/json, text/csv'')]
           in (get k endpoint headers, [StatusCall endpoint])))"

text \<open>
  The loop \<open>for { select { ... } }\<close>. It recurses over the cases the selects take: the
  empty list is a run observed only as far as a \<open>select\<close> in which the loop still
  waits, and has no result (\<open>None\<close>). \<open>status\<close> is the last status read, \<open>k\<close> the
  number of status calls made and \<open>trace\<close> the events so far.
\<close>

fun pollLoop ::
  "(nat \<Rightarrow> string \<Rightarrow> (string \<times> string) list \<Rightarrow> error + ExportStatusResponse) \<Rightarrow> string \<Rightarrow>
   Duration \<Rightarrow> Duration \<Rightarrow> select_case list \<Rightarrow> ExportStatusResponse \<Rightarrow> nat \<Rightarrow> poll_event list \<Rightarrow>
   (ExportStatusResponse option \<times> error option \<times> poll_event list) option"
where
  "pollLoop get exportID pollInterval timeout [] status k trace = None"
| "pollLoop get exportID pollInterval timeout (CtxDone # sel) status k trace =
     Some (Some status,
           Some (FmtError ''timeout waiting for export to complete after %v'' [ArgDuration timeout]),
           trace)"
| "pollLoop get exportID pollInterval timeout (TickerC # sel) status k trace =
     (case GetExportStatus get k exportID of
        (Inl err, evs) \<Rightarrow>
          Some (None, Some (WrapError ''failed to get export status: %w'' [] err),
                trace @ TickWait pollInterval # evs)
      | (Inr status', evs) \<Rightarrow>
          if isTerminalStatus (Status_e status')
          then Some (Some status', None, trace @ TickWait pollInterval # evs)
          else pollLoop get exportID pollInterval timeout sel status' (Suc k)
                 (trace @ TickWait pollInterval # evs))"

definition WaitForExport ::
  "(nat \<Rightarrow> string \<Rightarrow> (string \<times> string) list \<Rightarrow> error + ExportStatusResponse) \<Rightarrow> select_case list \<Rightarrow>
   string \<Rightarrow> Duration \<Rightarrow> Duration \<Rightarrow>
   (ExportStatusResponse option \<times> error option \<times> poll_event list) option"
where
  "WaitForExport get sel exportID pollInterval timeout =
     (case ValidateExportID exportID of
        Some err \<Rightarrow> Some (None, Some err, [])
      | None \<Rightarrow>
          (let pollInterval' = (if sint pollInterval \<le> 0 then 5 * Second else pollInterval);
               timeout' = (if sint timeout \<le> 0 then 10 * Minute else timeout)
           in case GetExportStatus get 0 exportID of
                (Inl err, evs) \<Rightarrow>
                  Some (None, Some (WrapError ''failed to get initial export status: %w'' [] err),
                        evs)
              | (Inr status, evs) \<Rightarrow>
                  if isTerminalStatus (Status_e status) then Some (Some status, None, evs)
                  else pollLoop get exportID pollInterval' timeout' sel status 1 evs))"

section \<open>Notions used to state the properties\<close>

text \<open>
  \<open>errors.Unwrap\<close> of the standard library on the error values above: only an error
  built with \<open>%w\<close> wraps another one (\<open>*APIError\<close> has no \<open>Unwrap\<close> method).
\<close>

fun Unwrap :: "error \<Rightarrow> error option" where
  "Unwrap (WrapError f args e) = Some e"
| "Unwrap _ = None"

text \<open>
  The shape the nine classification predicates share: the type assertion, then a test of
  the status code.
\<close>

definition statusCodeIs :: "(int \<Rightarrow> bool) \<Rightarrow> error option \<Rightarrow> panic + bool" where
  "statusCodeIs test err =
     (case assertAPIError err of
        Some p \<Rightarrow> (case p of Some apiErr \<Rightarrow> Inr (test (StatusCode apiErr))
                            | None \<Rightarrow> Inl NilPointerDereference)
      | None \<Rightarrow> Inr False)"

text \<open>All nine classification predicates return false on \<open>err\<close>.\<close>

definition allPredicatesFalse :: "error option \<Rightarrow> bool" where
  "allPredicatesFalse err =
     (IsBadRequest err = Inr False \<and> IsUnauthorized err = Inr False \<and>
      IsForbidden err = Inr False \<and> IsNotFound err = Inr False \<and>
      IsConflict err = Inr False \<and> IsValidationError err = Inr False \<and>
      IsRateLimited err = Inr False \<and> IsServerError err = Inr False \<and>
      IsTransient err = Inr False)"

text \<open>
  A decoded error body that gives \<open>ParseErrorResponse\<close> neither a code nor a message:
  the body was JSON, but not of the shape the function looks for.
\<close>

definition yieldsNothing :: "genericErrorResponse \<Rightarrow> bool" where
  "yieldsNothing r =
     (case Error_g r of Some e \<Rightarrow> Code e = [] \<and> Message e = []
                      | None \<Rightarrow> Code_g r = [] \<and> Message_g r = [])"

text \<open>
  The error body \<open>{"error":{"code":"INVALID_QUERY","message":"m"}}\<close> and the value
  \<open>json.Unmarshal\<close> decodes it to.
\<close>

definition invalidQueryBody :: string where
  "invalidQueryBody = ''{\"error\":{\"code\":\"INVALID_QUERY\",\"message\":\"m\"}}''"

definition invalidQueryDecoded :: genericErrorResponse where
  "invalidQueryDecoded =
     \<lparr>Error_g = Some \<lparr>Code = ''INVALID_QUERY'', Message = ''m'', Details = [], StatusCode = 0,
                        Status = [], Endpoint = [], Method = []\<rparr>,
      Message_g = [], Code_g = []\<rparr>"

text \<open>The request of a status call, and the events of \<open>n\<close> polls after the first check.\<close>

definition statusEndpoint :: "string \<Rightarrow> string" where
  "statusEndpoint exportID = EndpointNqlStatus @ ''/'' @ exportID"

definition statusHeaders :: "(string \<times> string) list" where
  "statusHeaders = [(''Accept'', ''application/json, text/csv'')]"

fun pollTrace :: "string \<Rightarrow> Duration \<Rightarrow> nat \<Rightarrow> poll_event list" where
  "pollTrace exportID pollInterval 0 = []"
| "pollTrace exportID pollInterval (Suc n) =
     TickWait pollInterval # StatusCall (statusEndpoint exportID) #
     pollTrace exportID pollInterval n"

section \<open>Example worlds\<close>

text \<open>A decoder that knows three bodies, and fails on every other one.\<close>

definition exampleUnmarshal :: "string \<Rightarrow> genericErrorResponse option" where
  "exampleUnmarshal body =
     (if body = invalidQueryBody then Some invalidQueryDecoded
      else if body = ''{}'' then Some \<lparr>Error_g = None, Message_g = [], Code_g = []\<rparr>
      else None)"

text \<open>
  A manager holding \<open>token-1\<close>, which expires 1000 seconds after the epoch, with the
  refresh buffer of \<open>NewTokenManager\<close> (120 seconds); a token endpoint that answers 200,
  one that cannot be reached, and a decoder that reads \<open>token-2\<close>, valid for 900 seconds,
  out of every body.
\<close>

definition exampleConfig :: AuthConfig where
  "exampleConfig =
     \<lparr>ClientID = ''client'', ClientSecret = ''secret'', Instance = ''acme'', Region = ''us'',
      TokenURL = [], Scope = []\<rparr>"

definition cachedManager :: TokenManager where
  "cachedManager =
     \<lparr>authConfig = exampleConfig,
      currentToken = Some \<lparr>TokenType = ''Bearer'', ExpiresIn = 900, AccessToken = ''token-1'',
                           Scope_t = ''service:integration''\<rparr>,
      tokenExpiry = 1000000000000,
      refreshBuffer = TokenRefreshBuffer * Second\<rparr>"

definition okPost :: "Request \<Rightarrow> error + Response" where
  "okPost req = Inr \<lparr>RespStatusCode = 200, RespStatus = ''200 OK'', RespBody = ''{...}''\<rparr>"

definition failingPost :: "Request \<Rightarrow> error + Response" where
  "failingPost req = Inl (OtherError ''dial tcp: connection refused'')"

definition exampleUnmarshalToken :: "string \<Rightarrow> error + TokenResponse" where
  "exampleUnmarshalToken body =
     Inr \<lparr>TokenType = ''Bearer'', ExpiresIn = 900, AccessToken = ''token-2'',
          Scope_t = ''service:integration''\<rparr>"

text \<open>A decoder that reads a token with \<open>expires_in = -9223372037\<close>.\<close>

definition negativeLifetimeToken :: "string \<Rightarrow> error + TokenResponse" where
  "negativeLifetimeToken body =
     Inr \<lparr>TokenType = ''Bearer'', ExpiresIn = - 9223372037, AccessToken = ''token-3'',
          Scope_t = ''service:integration''\<rparr>"

text \<open>An export that stays \<open>SUBMITTED\<close>, and one that is \<open>COMPLETED\<close> at the first check.\<close>

definition alwaysSubmitted ::
  "nat \<Rightarrow> string \<Rightarrow> (string \<times> string) list \<Rightarrow> error + ExportStatusResponse"
where
  "alwaysSubmitted k endpoint headers =
     Inr \<lparr>Status_e = ''SUBMITTED'', ResultsFileURL = [], ErrorDescription = []\<rparr>"

definition completedAtOnce ::
  "nat \<Rightarrow> string \<Rightarrow> (string \<times> string) list \<Rightarrow> error + ExportStatusResponse"
where
  "completedAtOnce k endpoint headers =
     Inr \<lparr>Status_e = ''COMPLETED'', ResultsFileURL = ''https://bucket.example/export.csv'',
          ErrorDescription = []\<rparr>"

text \<open>
  An export that is \<open>SUBMITTED\<close> at the first check; the second status call is still in
  flight when the deadline of \<open>timeoutCtx\<close> passes, and the HTTP client returns the
  context's error.
\<close>

definition deadlineDuringSecondCall ::
  "nat \<Rightarrow> string \<Rightarrow> (string \<times> string) list \<Rightarrow> error + ExportStatusResponse"
where
  "deadlineDuringSecondCall k endpoint headers =
     (if k = 0 then Inr \<lparr>Status_e = ''SUBMITTED'', ResultsFileURL = [], ErrorDescription = []\<rparr>
      else Inl (OtherError ''context deadline exceeded''))"

text \<open>A status endpoint that answers every call with 503.\<close>

definition serviceUnavailable :: APIError where
  "serviceUnavailable =
     \<lparr>Code = [], Message = ''Service temporarily unavailable. Retry might work'', Details = [],
      StatusCode = 503, Status = ''503 Service Unavailable'',
      Endpoint = ''/api/v1/nql/status/abc123'', Method = ''GET''\<rparr>"

definition unavailable ::
  "nat \<Rightarrow> string \<Rightarrow> (string \<times> string) list \<Rightarrow> error + ExportStatusResponse"
where
  "unavailable k endpoint headers = Inl (APIErrorPtr (Some serviceUnavailable))"

section \<open>Properties\<close>

lemmas Status_defs =
  StatusOK_def StatusCreated_def StatusBadRequest_def StatusUnauthorized_def
  StatusForbidden_def StatusNotFound_def StatusConflict_def
  StatusUnprocessableEntity_def StatusTooManyRequests_def
  StatusInternalServerError_def StatusBadGateway_def StatusServiceUnavailable_def
  StatusGatewayTimeout_def

lemma Is_defs:
  "IsBadRequest err = statusCodeIs (\<lambda>c. c = StatusBadRequest) err"
  "IsUnauthorized err = statusCodeIs (\<lambda>c. c = StatusUnauthorized) err"
  "IsForbidden err = statusCodeIs (\<lambda>c. c = StatusForbidden) err"
  "IsNotFound err = statusCodeIs (\<lambda>c. c = StatusNotFound) err"
  "IsConflict err = statusCodeIs (\<lambda>c. c = StatusConflict) err"
  "IsValidationError err = statusCodeIs (\<lambda>c. c = StatusUnprocessableEntity) err"
  "IsRateLimited err = statusCodeIs (\<lambda>c. c = StatusTooManyRequests) err"
  "IsServerError err = statusCodeIs (\<lambda>c. c \<ge> 500 \<and> c < 600) err"
  "IsTransient err =
     statusCodeIs (\<lambda>c. c = StatusServiceUnavailable \<or> c = StatusGatewayTimeout) err"
  by (simp_all add: statusCodeIs_def IsBadRequest_def IsUnauthorized_def IsForbidden_def
      IsNotFound_def IsConflict_def IsValidationError_def IsRateLimited_def IsServerError_def
      IsTransient_def)

subsection \<open>Parsing an error response\<close>

lemma fillFromResponse_context:
  "StatusCode (fillFromResponse r a) = StatusCode a"
  "Status (fillFromResponse r a) = Status a"
  "Method (fillFromResponse r a) = Method a"
  "Endpoint (fillFromResponse r a) = Endpoint a"
  by (simp_all add: fillFromResponse_def Let_def split: option.splits)

lemma rawBodyFallback_context:
  "StatusCode (rawBodyFallback b c a) = StatusCode a"
  "Status (rawBodyFallback b c a) = Status a"
  "Method (rawBodyFallback b c a) = Method a"
  "Endpoint (rawBodyFallback b c a) = Endpoint a"
  by (simp_all add: rawBodyFallback_def Let_def)

lemma rawBodyFallback_Message:
  "Message (rawBodyFallback b c a) = (if b = [] then getDefaultErrorMessage c else b)"
  by (simp add: rawBodyFallback_def Let_def)

lemma fillFromResponse_nothing:
  "Code a = [] \<Longrightarrow> Message a = [] \<Longrightarrow>
   (Code (fillFromResponse r a) = [] \<and> Message (fillFromResponse r a) = []) = yieldsNothing r"
  by (auto simp: fillFromResponse_def yieldsNothing_def Let_def split: option.splits)

lemma ParseErrorResponse_context:
  "\<exists>a. ParseErrorResponse unmarshal body statusCode status meth endpoint = APIErrorPtr (Some a) \<and>
       StatusCode a = statusCode \<and> Status a = status \<and> Method a = meth \<and> Endpoint a = endpoint"
  by (simp add: ParseErrorResponse_def Let_def fillFromResponse_context rawBodyFallback_context
      split: option.splits)

lemma ParseErrorResponse_fallback:
  assumes "unmarshal body = None \<or> (\<exists>r. unmarshal body = Some r \<and> yieldsNothing r)"
  shows "\<exists>a. ParseErrorResponse unmarshal body statusCode status meth endpoint = APIErrorPtr (Some a) \<and>
       Message a = (if body = [] then getDefaultErrorMessage statusCode else body)"
proof -
  let ?a0 = "\<lparr>Code = [], Message = [], Details = [], StatusCode = statusCode,
              Status = status, Endpoint = endpoint, Method = meth\<rparr>"
  from assms show ?thesis
  proof
    assume "unmarshal body = None"
    then have "ParseErrorResponse unmarshal body statusCode status meth endpoint =
        APIErrorPtr (Some (rawBodyFallback body statusCode ?a0))"
      by (simp add: ParseErrorResponse_def)
    then show ?thesis by (simp add: rawBodyFallback_Message)
  next
    assume "\<exists>r. unmarshal body = Some r \<and> yieldsNothing r"
    then obtain r where r: "unmarshal body = Some r" and n: "yieldsNothing r" by blast
    have "Code (fillFromResponse r ?a0) = [] \<and> Message (fillFromResponse r ?a0) = []"
      using n fillFromResponse_nothing [of ?a0 r] by simp
    with r have "ParseErrorResponse unmarshal body statusCode status meth endpoint =
        APIErrorPtr (Some (rawBodyFallback body statusCode (fillFromResponse r ?a0)))"
      by (simp add: ParseErrorResponse_def)
    then show ?thesis by (simp add: rawBodyFallback_Message)
  qed
qed

lemma ParseErrorResponse_invalidQuery:
  assumes "unmarshal invalidQueryBody = Some invalidQueryDecoded"
  shows "ParseErrorResponse unmarshal invalidQueryBody 400 status meth endpoint =
     APIErrorPtr (Some \<lparr>Code = ''INVALID_QUERY'', Message = ''m'', Details = [], StatusCode = 400,
                         Status = status, Endpoint = endpoint, Method = meth\<rparr>)"
  using assms
  by (simp add: ParseErrorResponse_def Let_def fillFromResponse_def invalidQueryDecoded_def)

lemma getDefaultErrorMessage_table:
  "getDefaultErrorMessage 400 = ''The API request is invalid or malformed'' \<and>
    getDefaultErrorMessage 401 = ''Authentication required or invalid credentials'' \<and>
    getDefaultErrorMessage 403 = ''You are not allowed to perform the requested operation'' \<and>
    getDefaultErrorMessage 404 = ''The requested resource was not found'' \<and>
    getDefaultErrorMessage 409 = ''The resource already exists'' \<and>
    getDefaultErrorMessage 422 = ''Validation error'' \<and>
    getDefaultErrorMessage 429 =
      ''Rate limit exceeded. Too many requests in a given time period'' \<and>
    getDefaultErrorMessage 500 = ''Internal server error'' \<and>
    getDefaultErrorMessage 502 = ''Bad gateway'' \<and>
    getDefaultErrorMessage 503 = ''Service temporarily unavailable. Retry might work'' \<and>
    getDefaultErrorMessage 504 = ''The operation took too long to complete'' \<and>
    (statusCode \<notin> {400, 401, 403, 404, 409, 422, 429, 500, 502, 503, 504} \<longrightarrow>
       getDefaultErrorMessage statusCode = ''Unknown error'')"
  by (simp add: getDefaultErrorMessage_def Status_defs)

lemma ParseErrorResponse_empty_body:
  "unmarshal [] = None \<Longrightarrow>
   ParseErrorResponse unmarshal [] statusCode status meth endpoint =
     APIErrorPtr (Some \<lparr>Code = [], Message = getDefaultErrorMessage statusCode, Details = [],
                         StatusCode = statusCode, Status = status, Endpoint = endpoint,
                         Method = meth\<rparr>)"
  by (simp add: ParseErrorResponse_def Let_def rawBodyFallback_def)

text \<open>
  Claim C6. \<open>ParseErrorResponse\<close>, for any status text, method and endpoint:
  \<^item> on the body \<open>{"error":{"code":"INVALID_QUERY","message":"m"}}\<close> with status 400
    (which \<open>json.Unmarshal\<close> decodes to \<open>invalidQueryDecoded\<close>) it returns an
    \<open>*APIError\<close> with code \<open>INVALID_QUERY\<close>, message \<open>m\<close> and status code 400;
  \<^item> on the empty body (on which \<open>json.Unmarshal\<close> fails) the message is the default
    message of the status code, which is, entry by entry, the text the source gives for
    400, 401, 403, 404, 409, 422, 429, 500, 502, 503 and 504, and \<open>Unknown error\<close> for
    every other status code;
  \<^item> on a non-empty body that is not JSON (the decoder fails) or not of the expected shape
    (it decodes to a value with neither code nor message) the message is the raw body;
  \<^item> in every case the status code, the status text, the method and the endpoint of the
    call are those of the returned error.
\<close>

theorem ParseErrorResponse_classification:
  "(unmarshal invalidQueryBody = Some invalidQueryDecoded \<longrightarrow>
      ParseErrorResponse unmarshal invalidQueryBody 400 status meth endpoint =
        APIErrorPtr (Some \<lparr>Code = ''INVALID_QUERY'', Message = ''m'', Details = [],
                            StatusCode = 400, Status = status, Endpoint = endpoint,
                            Method = meth\<rparr>)) \<and>
   (unmarshal [] = None \<longrightarrow>
      ParseErrorResponse unmarshal [] statusCode status meth endpoint =
        APIErrorPtr (Some \<lparr>Code = [], Message = getDefaultErrorMessage statusCode, Details = [],
                            StatusCode = statusCode, Status = status, Endpoint = endpoint,
                            Method = meth\<rparr>)) \<and>
   (getDefaultErrorMessage 400 = ''The API request is invalid or malformed'' \<and>
    getDefaultErrorMessage 401 = ''Authentication required or invalid credentials'' \<and>
    getDefaultErrorMessage 403 = ''You are not allowed to perform the requested operation'' \<and>
    getDefaultErrorMessage 404 = ''The requested resource was not found'' \<and>
    getDefaultErrorMessage 409 = ''The resource already exists'' \<and>
    getDefaultErrorMessage 422 = ''Validation error'' \<and>
    getDefaultErrorMessage 429 =
      ''Rate limit exceeded. Too many requests in a given time period'' \<and>
    getDefaultErrorMessage 500 = ''Internal server error'' \<and>
    getDefaultErrorMessage 502 = ''Bad gateway'' \<and>
    getDefaultErrorMessage 503 = ''Service temporarily unavailable. Retry might work'' \<and>
    getDefaultErrorMessage 504 = ''The operation took too long to complete'' \<and>
    (statusCode \<notin> {400, 401, 403, 404, 409, 422, 429, 500, 502, 503, 504} \<longrightarrow>
       getDefaultErrorMessage statusCode = ''Unknown error'')) \<and>
   (body \<noteq> [] \<and> (unmarshal body = None \<or> (\<exists>r. unmarshal body = Some r \<and> yieldsNothing r)) \<longrightarrow>
      (\<exists>a. ParseErrorResponse unmarshal body statusCode status meth endpoint =
              APIErrorPtr (Some a) \<and> Message a = body)) \<and>
   (\<exists>a. ParseErrorResponse unmarshal body statusCode status meth endpoint = APIErrorPtr (Some a) \<and>
        StatusCode a = statusCode \<and> Status a = status \<and> Method a = meth \<and>
        Endpoint a = endpoint)"
proof -
  have q1: "(unmarshal invalidQueryBody = Some invalidQueryDecoded \<longrightarrow>
      ParseErrorResponse unmarshal invalidQueryBody 400 status meth endpoint =
        APIErrorPtr (Some \<lparr>Code = ''INVALID_QUERY'', Message = ''m'', Details = [],
                            StatusCode = 400, Status = status, Endpoint = endpoint,
                            Method = meth\<rparr>))"
    by (auto intro: ParseErrorResponse_invalidQuery)
  have q2: "(unmarshal [] = None \<longrightarrow>
      ParseErrorResponse unmarshal [] statusCode status meth endpoint =
        APIErrorPtr (Some \<lparr>Code = [], Message = getDefaultErrorMessage statusCode, Details = [],
                            StatusCode = statusCode, Status = status, Endpoint = endpoint,
                            Method = meth\<rparr>))"
    by (auto intro: ParseErrorResponse_empty_body)
  have q4: "(body \<noteq> [] \<and> (unmarshal body = None \<or> (\<exists>r. unmarshal body = Some r \<and> yieldsNothing r)) \<longrightarrow>
      (\<exists>a. ParseErrorResponse unmarshal body statusCode status meth endpoint =
              APIErrorPtr (Some a) \<and> Message a = body))"
  proof
    assume a: "body \<noteq> [] \<and>
      (unmarshal body = None \<or> (\<exists>r. unmarshal body = Some r \<and> yieldsNothing r))"
    then have "unmarshal body = None \<or> (\<exists>r. unmarshal body = Some r \<and> yieldsNothing r)"
      by simp
    from ParseErrorResponse_fallback [of unmarshal body statusCode status meth endpoint, OF this] a
    show "\<exists>a. ParseErrorResponse unmarshal body statusCode status meth endpoint =
              APIErrorPtr (Some a) \<and> Message a = body"
      by auto
  qed
  have q5: "(\<exists>a. ParseErrorResponse unmarshal body statusCode status meth endpoint = APIErrorPtr (Some a) \<and>
        StatusCode a = statusCode \<and> Status a = status \<and> Method a = meth \<and>
        Endpoint a = endpoint)"
    by (rule ParseErrorResponse_context)
  from q1 q2 getDefaultErrorMessage_table [of statusCode] q4 q5 show ?thesis
    by blast
qed

text \<open>
  The theorem with the decoder \<open>exampleUnmarshal\<close>: the body of the claim, the empty
  body with the status codes 503, 404 and 418, a plain text body, and the JSON body
  \<open>{}\<close>.
\<close>

theorem ParseErrorResponse_classification_witness:
  "ParseErrorResponse exampleUnmarshal invalidQueryBody 400 ''400 Bad Request'' ''POST''
       ''/api/v1/nql/execute'' =
     APIErrorPtr (Some \<lparr>Code = ''INVALID_QUERY'', Message = ''m'', Details = [],
                         StatusCode = 400, Status = ''400 Bad Request'',
                         Endpoint = ''/api/v1/nql/execute'', Method = ''POST''\<rparr>) \<and>
   ParseErrorResponse exampleUnmarshal [] 503 ''503 Service Unavailable'' ''POST''
       ''/api/v1/nql/execute'' =
     APIErrorPtr (Some \<lparr>Code = [], Message = ''Service temporarily unavailable. Retry might work'',
                         Details = [], StatusCode = 503, Status = ''503 Service Unavailable'',
                         Endpoint = ''/api/v1/nql/execute'', Method = ''POST''\<rparr>) \<and>
   ParseErrorResponse exampleUnmarshal [] 404 ''404 Not Found'' ''GET'' ''/test'' =
     APIErrorPtr (Some \<lparr>Code = [], Message = ''The requested resource was not found'',
                         Details = [], StatusCode = 404, Status = ''404 Not Found'',
                         Endpoint = ''/test'', Method = ''GET''\<rparr>) \<and>
   ParseErrorResponse exampleUnmarshal [] 418 [] ''GET'' ''/test'' =
     APIErrorPtr (Some \<lparr>Code = [], Message = ''Unknown error'', Details = [], StatusCode = 418,
                         Status = [], Endpoint = ''/test'', Method = ''GET''\<rparr>) \<and>
   (\<exists>a. ParseErrorResponse exampleUnmarshal ''Something went wrong'' 500 [] ''GET'' ''/test'' =
          APIErrorPtr (Some a) \<and> Message a = ''Something went wrong'') \<and>
   (\<exists>a. ParseErrorResponse exampleUnmarshal ''{}'' 500 [] ''GET'' ''/test'' =
          APIErrorPtr (Some a) \<and> Message a = ''{}'')"
proof -
  have d: "exampleUnmarshal invalidQueryBody = Some invalidQueryDecoded"
    by (simp add: exampleUnmarshal_def)
  have e: "exampleUnmarshal [] = None"
    by (simp add: exampleUnmarshal_def invalidQueryBody_def)
  have t: "''Something went wrong'' \<noteq> [] \<and>
     (exampleUnmarshal ''Something went wrong'' = None \<or>
      (\<exists>r. exampleUnmarshal ''Something went wrong'' = Some r \<and> yieldsNothing r))"
    by (simp add: exampleUnmarshal_def invalidQueryBody_def)
  have j: "''{}'' \<noteq> [] \<and>
     (exampleUnmarshal ''{}'' = None \<or> (\<exists>r. exampleUnmarshal ''{}'' = Some r \<and> yieldsNothing r))"
    by (simp add: exampleUnmarshal_def invalidQueryBody_def yieldsNothing_def)
  have u: "(418 :: int) \<notin> {400, 401, 403, 404, 409, 422, 429, 500, 502, 503, 504}"
    by simp
  note c1 = ParseErrorResponse_classification
    [where unmarshal = exampleUnmarshal and status = "''400 Bad Request''" and meth = "''POST''"
       and endpoint = "''/api/v1/nql/execute''" and statusCode = 400
       and body = "''Something went wrong''"]
  note c2 = ParseErrorResponse_classification
    [where unmarshal = exampleUnmarshal and status = "''503 Service Unavailable''"
       and meth = "''POST''" and endpoint = "''/api/v1/nql/execute''" and statusCode = 503
       and body = "''Something went wrong''"]
  note c3 = ParseErrorResponse_classification
    [where unmarshal = exampleUnmarshal and status = "[]" and meth = "''GET''"
       and endpoint = "''/test''" and statusCode = 500 and body = "''Something went wrong''"]
  note c4 = ParseErrorResponse_classification
    [where unmarshal = exampleUnmarshal and status = "[]" and meth = "''GET''"
       and endpoint = "''/test''" and statusCode = 500 and body = "''{}''"]
  note c5 = ParseErrorResponse_classification
    [where unmarshal = exampleUnmarshal and status = "''404 Not Found''" and meth = "''GET''"
       and endpoint = "''/test''" and statusCode = 404 and body = "''{}''"]
  note c6 = ParseErrorResponse_classification
    [where unmarshal = exampleUnmarshal and status = "[]" and meth = "''GET''"
       and endpoint = "''/test''" and statusCode = 418 and body = "''{}''"]
  from c1 d have p1: "ParseErrorResponse exampleUnmarshal invalidQueryBody 400 ''400 Bad Request''
       ''POST'' ''/api/v1/nql/execute'' =
     APIErrorPtr (Some \<lparr>Code = ''INVALID_QUERY'', Message = ''m'', Details = [],
                         StatusCode = 400, Status = ''400 Bad Request'',
                         Endpoint = ''/api/v1/nql/execute'', Method = ''POST''\<rparr>)"
    by blast
  from c2 e have p2: "ParseErrorResponse exampleUnmarshal [] 503 ''503 Service Unavailable'' ''POST''
       ''/api/v1/nql/execute'' =
     APIErrorPtr (Some \<lparr>Code = [], Message = ''Service temporarily unavailable. Retry might work'',
                         Details = [], StatusCode = 503, Status = ''503 Service Unavailable'',
                         Endpoint = ''/api/v1/nql/execute'', Method = ''POST''\<rparr>)"
    by simp
  from c5 e have p5: "ParseErrorResponse exampleUnmarshal [] 404 ''404 Not Found'' ''GET'' ''/test'' =
     APIErrorPtr (Some \<lparr>Code = [], Message = ''The requested resource was not found'',
                         Details = [], StatusCode = 404, Status = ''404 Not Found'',
                         Endpoint = ''/test'', Method = ''GET''\<rparr>)"
    by simp
  from c6 e u have p6: "ParseErrorResponse exampleUnmarshal [] 418 [] ''GET'' ''/test'' =
     APIErrorPtr (Some \<lparr>Code = [], Message = ''Unknown error'', Details = [], StatusCode = 418,
                         Status = [], Endpoint = ''/test'', Method = ''GET''\<rparr>)"
    by simp
  from c3 t have p3: "\<exists>a. ParseErrorResponse exampleUnmarshal ''Something went wrong'' 500 [] ''GET''
          ''/test'' = APIErrorPtr (Some a) \<and> Message a = ''Something went wrong''"
    by blast
  from c4 j have p4: "\<exists>a. ParseErrorResponse exampleUnmarshal ''{}'' 500 [] ''GET'' ''/test'' =
          APIErrorPtr (Some a) \<and> Message a = ''{}''"
    by blast
  from p1 p2 p5 p6 p3 p4 show ?thesis by blast
qed

subsection \<open>The classification predicates\<close>

lemma statusCodeIs_simps:
  "statusCodeIs test None = Inr False"
  "statusCodeIs test (Some (APIErrorPtr (Some a))) = Inr (test (StatusCode a))"
  "statusCodeIs test (Some (APIErrorPtr None)) = Inl NilPointerDereference"
  "statusCodeIs test (Some (FmtError f args)) = Inr False"
  "statusCodeIs test (Some (WrapError f args e)) = Inr False"
  "statusCodeIs test (Some (OtherError m)) = Inr False"
  by (simp_all add: statusCodeIs_def)

lemma statusCodeIs_True_iff:
  "statusCodeIs test err = Inr True \<longleftrightarrow>
     (\<exists>a. err = Some (APIErrorPtr (Some a)) \<and> test (StatusCode a))"
proof (cases err)
  case None
  then show ?thesis by (simp add: statusCodeIs_simps)
next
  case (Some e)
  then show ?thesis
    by (cases e) (auto simp: statusCodeIs_def split: option.splits)
qed

lemma statusCodeIs_not_APIError:
  assumes "\<forall>p. err \<noteq> Some (APIErrorPtr p)"
  shows "statusCodeIs test err = Inr False"
proof (cases err)
  case None
  then show ?thesis by (simp add: statusCodeIs_def)
next
  case (Some e)
  with assms show ?thesis by (cases e) (simp_all add: statusCodeIs_def)
qed

lemma allPredicatesFalse_not_APIError:
  "\<forall>p. err \<noteq> Some (APIErrorPtr p) \<Longrightarrow> allPredicatesFalse err"
  by (simp add: allPredicatesFalse_def Is_defs statusCodeIs_not_APIError)

text \<open>
  Claim C7. For every error value \<open>e\<close> (\<open>nil\<close> included), \<open>IsTransient\<close> returns true
  exactly when \<open>e\<close> is a (non-nil) \<open>*APIError\<close> whose status code is 503 or 504, and
  \<open>IsServerError\<close> returns true exactly when \<open>e\<close> is a \<open>*APIError\<close> whose status
  code lies in [500, 600). Transient is strictly narrower: it implies server error, and
  some server error (status 500) is not transient.
\<close>

theorem IsTransient_narrower_than_IsServerError:
  "(IsTransient e = Inr True \<longleftrightarrow>
      (\<exists>a. e = Some (APIErrorPtr (Some a)) \<and> (StatusCode a = 503 \<or> StatusCode a = 504))) \<and>
   (IsServerError e = Inr True \<longleftrightarrow>
      (\<exists>a. e = Some (APIErrorPtr (Some a)) \<and> 500 \<le> StatusCode a \<and> StatusCode a < 600)) \<and>
   (IsTransient e = Inr True \<longrightarrow> IsServerError e = Inr True) \<and>
   (\<exists>e'. IsServerError e' = Inr True \<and> IsTransient e' = Inr False)"
proof -
  have t: "IsTransient e = Inr True \<longleftrightarrow>
      (\<exists>a. e = Some (APIErrorPtr (Some a)) \<and> (StatusCode a = 503 \<or> StatusCode a = 504))"
    by (simp add: Is_defs statusCodeIs_True_iff StatusServiceUnavailable_def
        StatusGatewayTimeout_def)
  have s: "IsServerError e = Inr True \<longleftrightarrow>
      (\<exists>a. e = Some (APIErrorPtr (Some a)) \<and> 500 \<le> StatusCode a \<and> StatusCode a < 600)"
    by (simp add: Is_defs statusCodeIs_True_iff)
  have n: "IsTransient e = Inr True \<longrightarrow> IsServerError e = Inr True"
    unfolding t s by auto
  let ?a = "\<lparr>Code = [], Message = [], Details = [], StatusCode = 500, Status = [],
             Endpoint = [], Method = []\<rparr>"
  have "IsServerError (Some (APIErrorPtr (Some ?a))) = Inr True \<and>
        IsTransient (Some (APIErrorPtr (Some ?a))) = Inr False"
    by (simp add: Is_defs statusCodeIs_simps
        StatusServiceUnavailable_def StatusGatewayTimeout_def)
  then have x: "\<exists>e'. IsServerError e' = Inr True \<and> IsTransient e' = Inr False"
    by blast
  from t s n x show ?thesis by blast
qed

text \<open>
  The theorem at a 504 answer: transient, hence a server error.
\<close>

theorem IsTransient_narrower_witness:
  "IsTransient (Some (APIErrorPtr (Some \<lparr>Code = [], Message = ''down'', Details = [],
       StatusCode = 504, Status = ''504 Gateway Timeout'', Endpoint = ''/api/v1/nql/execute'',
       Method = ''POST''\<rparr>))) = Inr True \<and>
   IsServerError (Some (APIErrorPtr (Some \<lparr>Code = [], Message = ''down'', Details = [],
       StatusCode = 504, Status = ''504 Gateway Timeout'', Endpoint = ''/api/v1/nql/execute'',
       Method = ''POST''\<rparr>))) = Inr True"
proof -
  let ?e = "Some (APIErrorPtr (Some \<lparr>Code = [], Message = ''down'', Details = [],
       StatusCode = 504, Status = ''504 Gateway Timeout'', Endpoint = ''/api/v1/nql/execute'',
       Method = ''POST''\<rparr>))"
  have h: "IsTransient ?e = Inr True"
    by (simp add: Is_defs statusCodeIs_simps StatusGatewayTimeout_def)
  from IsTransient_narrower_than_IsServerError [of ?e] h show ?thesis by blast
qed

subsection \<open>The token manager\<close>

lemmas example_defs =
  cachedManager_def exampleConfig_def okPost_def failingPost_def exampleUnmarshalToken_def
  TokenRefreshBuffer_def Second_def NewTokenManager_def

lemma validToken_Some_iff:
  "validToken tm now = Some t \<longleftrightarrow>
     (\<exists>tok. currentToken tm = Some tok \<and> now + sint (refreshBuffer tm) < tokenExpiry tm \<and>
            t = AccessToken tok)"
  by (auto simp: validToken_def Time_Before_def Time_Add_def split: option.splits)

lemma validToken_None_iff:
  "validToken tm now = None \<longleftrightarrow>
     (currentToken tm = None \<or> \<not> now + sint (refreshBuffer tm) < tokenExpiry tm)"
  by (auto simp: validToken_def Time_Before_def Time_Add_def split: option.splits)

lemma RefreshToken_valid:
  "validToken tm nowC = Some t \<Longrightarrow> RefreshToken post unmarshal nowC nowS tm = (Inr t, tm, [])"
  by (simp add: RefreshToken_def)

lemma RefreshToken_requests:
  "validToken tm nowC = None \<Longrightarrow>
   snd (snd (RefreshToken post unmarshal nowC nowS tm)) = [tokenRequest (authConfig tm)]"
  by (simp add: RefreshToken_def Let_def split: sum.splits)

lemma RefreshToken_Inr:
  assumes "validToken tm nowC = None"
    and "RefreshToken post unmarshal nowC nowS tm = (Inr t, tm', reqs)"
  shows "\<exists>resp tokenResp. post (tokenRequest (authConfig tm)) = Inr resp \<and> \<not> IsError resp \<and>
           unmarshal (RespBody resp) = Inr tokenResp \<and> t = AccessToken tokenResp \<and>
           tm' = tm\<lparr>currentToken := Some tokenResp,
                     tokenExpiry := nowS + sint (ExpiresIn tokenResp * Second)\<rparr>"
  using assms
  by (auto simp: RefreshToken_def Let_def Time_Add_def split: sum.splits if_splits)

lemma RefreshToken_Inl:
  "RefreshToken post unmarshal nowC nowS tm = (Inl e, tm', reqs) \<Longrightarrow> tm' = tm"
  by (auto simp: RefreshToken_def Let_def split: option.splits sum.splits if_splits)

text \<open>
  Claim C1. For every call of \<open>GetToken\<close>:
  \<^item> if a token is stored and the reading of the clock plus the refresh buffer is
    strictly before the stored expiry, the call returns the cached access token, leaves
    the manager as it is and sends nothing to the token endpoint;
  \<^item> if no token is stored or that test fails, the call goes through \<open>RefreshToken\<close>:
    when the manager it finds under the write lock holds a token that passes the test
    (another goroutine has refreshed meanwhile), that token is returned without a
    request; otherwise exactly one request goes to the token endpoint, and a token is
    handed out only if that request was answered without error and the answer decoded:
    it is the access token of that answer, which is then the stored token.
\<close>

theorem GetToken_cached_or_refreshed:
  "(currentToken tm = Some tok \<and> nowR + sint (refreshBuffer tm) < tokenExpiry tm \<longrightarrow>
      GetToken post unmarshal nowR others nowC nowS tm = (Inr (AccessToken tok), tm, [])) \<and>
   ((currentToken tm = None \<or> \<not> nowR + sint (refreshBuffer tm) < tokenExpiry tm) \<longrightarrow>
      (currentToken (others tm) = Some tok' \<and>
       nowC + sint (refreshBuffer (others tm)) < tokenExpiry (others tm) \<longrightarrow>
         GetToken post unmarshal nowR others nowC nowS tm =
           (Inr (AccessToken tok'), others tm, [])) \<and>
      ((currentToken (others tm) = None \<or>
        \<not> nowC + sint (refreshBuffer (others tm)) < tokenExpiry (others tm)) \<longrightarrow>
         snd (snd (GetToken post unmarshal nowR others nowC nowS tm)) =
           [tokenRequest (authConfig (others tm))] \<and>
         (GetToken post unmarshal nowR others nowC nowS tm = (Inr t, tm', reqs) \<longrightarrow>
            (\<exists>resp tokenResp.
               post (tokenRequest (authConfig (others tm))) = Inr resp \<and> \<not> IsError resp \<and>
               unmarshal (RespBody resp) = Inr tokenResp \<and> t = AccessToken tokenResp \<and>
               currentToken tm' = Some tokenResp))))"
proof (intro conjI impI)
  assume "currentToken tm = Some tok \<and> nowR + sint (refreshBuffer tm) < tokenExpiry tm"
  then have "validToken tm nowR = Some (AccessToken tok)"
    by (simp add: validToken_Some_iff)
  then show "GetToken post unmarshal nowR others nowC nowS tm = (Inr (AccessToken tok), tm, [])"
    by (simp add: GetToken_def)
next
  assume "currentToken tm = None \<or> \<not> nowR + sint (refreshBuffer tm) < tokenExpiry tm"
  then have n: "validToken tm nowR = None" by (simp add: validToken_None_iff)
  then have g: "GetToken post unmarshal nowR others nowC nowS tm =
      RefreshToken post unmarshal nowC nowS (others tm)"
    by (simp add: GetToken_def)
  {
    assume "currentToken (others tm) = Some tok' \<and>
       nowC + sint (refreshBuffer (others tm)) < tokenExpiry (others tm)"
    then have "validToken (others tm) nowC = Some (AccessToken tok')"
      by (simp add: validToken_Some_iff)
    then show "GetToken post unmarshal nowR others nowC nowS tm =
           (Inr (AccessToken tok'), others tm, [])"
      unfolding g by (rule RefreshToken_valid)
  }
  {
    assume "currentToken (others tm) = None \<or>
        \<not> nowC + sint (refreshBuffer (others tm)) < tokenExpiry (others tm)"
    then have n1: "validToken (others tm) nowC = None" by (simp add: validToken_None_iff)
    then show "snd (snd (GetToken post unmarshal nowR others nowC nowS tm)) =
           [tokenRequest (authConfig (others tm))]"
      unfolding g by (rule RefreshToken_requests)
    {
      assume "GetToken post unmarshal nowR others nowC nowS tm = (Inr t, tm', reqs)"
      then have "RefreshToken post unmarshal nowC nowS (others tm) = (Inr t, tm', reqs)"
        unfolding g .
      from RefreshToken_Inr [OF n1 this]
      show "\<exists>resp tokenResp.
               post (tokenRequest (authConfig (others tm))) = Inr resp \<and> \<not> IsError resp \<and>
               unmarshal (RespBody resp) = Inr tokenResp \<and> t = AccessToken tokenResp \<and>
               currentToken tm' = Some tokenResp"
        by auto
    }
  }
qed

text \<open>
  The three cases at concrete managers: a cached token that is still valid; no token, the
  call running alone; no token, and another goroutine installing \<open>token-1\<close> before the
  write lock is taken.
\<close>

theorem GetToken_cached_or_refreshed_witness:
  "GetToken failingPost exampleUnmarshalToken 5000000000 (\<lambda>m. m) 5000000001 5000000002
       cachedManager =
     (Inr ''token-1'', cachedManager, []) \<and>
   snd (snd (GetToken okPost exampleUnmarshalToken 5000000000 (\<lambda>m. m) 5000000001 5000000002
               (NewTokenManager exampleConfig))) =
     [tokenRequest exampleConfig] \<and>
   GetToken failingPost exampleUnmarshalToken 5000000000 (\<lambda>m. cachedManager) 5000000001
       5000000002 (NewTokenManager exampleConfig) =
     (Inr ''token-1'', cachedManager, [])"
proof -
  let ?tok = "\<lparr>TokenType = ''Bearer'', ExpiresIn = 900, AccessToken = ''token-1'',
               Scope_t = ''service:integration''\<rparr>"
  have a: "currentToken cachedManager = Some ?tok \<and>
      5000000000 + sint (refreshBuffer cachedManager) < tokenExpiry cachedManager"
    by (simp add: example_defs)
  have b: "currentToken (NewTokenManager exampleConfig) = None \<or>
      \<not> 5000000000 + sint (refreshBuffer (NewTokenManager exampleConfig))
          < tokenExpiry (NewTokenManager exampleConfig)"
    by (simp add: example_defs)
  have a1: "currentToken cachedManager = Some ?tok \<and>
      5000000001 + sint (refreshBuffer cachedManager) < tokenExpiry cachedManager"
    by (simp add: example_defs)
  have p1: "GetToken failingPost exampleUnmarshalToken 5000000000 (\<lambda>m. m) 5000000001 5000000002
       cachedManager = (Inr ''token-1'', cachedManager, [])"
    using GetToken_cached_or_refreshed
      [where tm = cachedManager and tok = ?tok and nowR = 5000000000 and post = failingPost
         and unmarshal = exampleUnmarshalToken and others = "\<lambda>m. m" and nowC = 5000000001
         and nowS = 5000000002] a
    by simp
  have p2: "snd (snd (GetToken okPost exampleUnmarshalToken 5000000000 (\<lambda>m. m) 5000000001
               5000000002 (NewTokenManager exampleConfig))) = [tokenRequest exampleConfig]"
    using GetToken_cached_or_refreshed
      [where tm = "NewTokenManager exampleConfig" and nowR = 5000000000 and post = okPost
         and unmarshal = exampleUnmarshalToken and others = "\<lambda>m. m" and nowC = 5000000001
         and nowS = 5000000002] b
    by (simp add: NewTokenManager_def)
  have p3: "GetToken failingPost exampleUnmarshalToken 5000000000 (\<lambda>m. cachedManager) 5000000001
       5000000002 (NewTokenManager exampleConfig) = (Inr ''token-1'', cachedManager, [])"
    using GetToken_cached_or_refreshed
      [where tm = "NewTokenManager exampleConfig" and nowR = 5000000000 and post = failingPost
         and unmarshal = exampleUnmarshalToken and others = "\<lambda>m. cachedManager"
         and nowC = 5000000001 and nowS = 5000000002 and tok' = ?tok] a1 b
    by simp
  from p1 p2 p3 show ?thesis by simp
qed

text \<open>
  What \<open>RefreshToken\<close> sends: nothing when the stored token passes the test at its
  check under the lock, and otherwise exactly one request, a POST to the token URL with
  the headers \<open>Content-Type: application/x-www-form-urlencoded\<close> and
  \<open>Authorization: Basic base64(ClientID:ClientSecret)\<close> and the form fields
  \<open>grant_type=client_credentials\<close> and \<open>scope\<close> as configured.
\<close>

lemma RefreshToken_contacts_endpoint_when_stale:
  "snd (snd (RefreshToken post unmarshal nowC nowS tm)) =
     (if (\<exists>tok. currentToken tm = Some tok) \<and> nowC + sint (refreshBuffer tm) < tokenExpiry tm
      then [] else [tokenRequest (authConfig tm)]) \<and>
   ReqMethod (tokenRequest cfg) = ''POST'' \<and>
   ReqURL (tokenRequest cfg) = GetTokenURL cfg \<and>
   ReqHeader (tokenRequest cfg) =
     [(''Content-Type'', ''application/x-www-form-urlencoded''),
      (''Authorization'', ''Basic '' @ EncodeToString (ClientID cfg @ '':'' @ ClientSecret cfg))] \<and>
   ReqFormData (tokenRequest cfg) =
     [(''grant_type'', ''client_credentials''), (''scope'', GetScope cfg)]"
proof -
  have "snd (snd (RefreshToken post unmarshal nowC nowS tm)) =
     (if (\<exists>tok. currentToken tm = Some tok) \<and> nowC + sint (refreshBuffer tm) < tokenExpiry tm
      then [] else [tokenRequest (authConfig tm)])"
  proof (cases "validToken tm nowC")
    case None
    then show ?thesis
      using RefreshToken_requests [OF None] by (auto simp: validToken_None_iff)
  next
    case (Some t)
    then show ?thesis
      using RefreshToken_valid [OF Some] by (auto simp: validToken_Some_iff)
  qed
  then show ?thesis
    by (simp add: tokenRequest_def Let_def ContentTypeFormURLEncoded_def GenerateBasicAuth_def
        GrantTypeClientCredentials_def)
qed

text \<open>
  Claim C2 (the code differs). The claim, the doc comments ("requests a new access token",
  "manually refreshes the OAuth2 access token") and the test \<open>TestTransport_RefreshToken\<close>
  ("want at least 2 (initial + refresh)") ask that every call of \<open>RefreshToken\<close> goes to
  the token endpoint. The code does not when the stored token passes the test: the first
  \<open>RefreshToken\<close> of a new manager, at 5 seconds after the epoch, sends one request and
  stores \<open>token-2\<close>, valid for 900 seconds; a second \<open>RefreshToken\<close> one second later
  returns \<open>token-2\<close> from the manager and sends nothing, so the endpoint has been called
  once, not twice.
\<close>

theorem RefreshToken_manual_refresh_skipped:
  "RefreshToken okPost exampleUnmarshalToken 5000000000 5000000001 (NewTokenManager exampleConfig) =
     (Inr ''token-2'',
      \<lparr>authConfig = exampleConfig,
       currentToken = Some \<lparr>TokenType = ''Bearer'', ExpiresIn = 900, AccessToken = ''token-2'',
                            Scope_t = ''service:integration''\<rparr>,
       tokenExpiry = 905000000001, refreshBuffer = 120000000000\<rparr>,
      [tokenRequest exampleConfig]) \<and>
   RefreshToken okPost exampleUnmarshalToken 6000000000 6000000001
     \<lparr>authConfig = exampleConfig,
      currentToken = Some \<lparr>TokenType = ''Bearer'', ExpiresIn = 900, AccessToken = ''token-2'',
                           Scope_t = ''service:integration''\<rparr>,
      tokenExpiry = 905000000001, refreshBuffer = 120000000000\<rparr> =
     (Inr ''token-2'',
      \<lparr>authConfig = exampleConfig,
       currentToken = Some \<lparr>TokenType = ''Bearer'', ExpiresIn = 900, AccessToken = ''token-2'',
                            Scope_t = ''service:integration''\<rparr>,
       tokenExpiry = 905000000001, refreshBuffer = 120000000000\<rparr>,
      [])"
  by (simp add: RefreshToken_def validToken_def Time_Before_def Time_Add_def IsError_def
      example_defs Let_def)

text \<open>
  Claim C3. Whenever \<open>RefreshToken\<close> returns an error (the transport failed, the
  answer had an error status, or its body did not decode), the manager is exactly what
  it was before the call, stored token and expiry included. So a later \<open>GetToken\<close>, in
  any world and at any reading \<open>nowR\<close> of the clock, does what it would have done on the
  manager before the failed call: it returns the stored token without a request if that
  token passes the test at \<open>nowR\<close>, and goes through \<open>RefreshToken\<close> otherwise.
  \<open>RefreshToken\<close> only reaches the endpoint, and so only fails, when the stored token
  fails the test at its own reading \<open>nowC\<close>; the token it leaves in place therefore
  fails the test at every reading that is not earlier than \<open>nowC\<close>.
\<close>

theorem RefreshToken_failure_keeps_token:
  assumes "RefreshToken post unmarshal nowC nowS tm = (Inl e, tm', reqs)"
  shows "tm' = tm \<and> currentToken tm' = currentToken tm \<and> tokenExpiry tm' = tokenExpiry tm \<and>
     GetToken post' unmarshal' nowR others nowC' nowS' tm' =
       (if (\<exists>tok. currentToken tm = Some tok) \<and> nowR + sint (refreshBuffer tm) < tokenExpiry tm
        then (Inr (AccessToken (the (currentToken tm))), tm, [])
        else RefreshToken post' unmarshal' nowC' nowS' (others tm)) \<and>
     (nowC \<le> nowR \<longrightarrow>
        currentToken tm' = None \<or> tokenExpiry tm' \<le> nowR + sint (refreshBuffer tm'))"
proof -
  from assms have eq: "tm' = tm" by (rule RefreshToken_Inl)
  have g: "GetToken post' unmarshal' nowR others nowC' nowS' tm =
       (if (\<exists>tok. currentToken tm = Some tok) \<and> nowR + sint (refreshBuffer tm) < tokenExpiry tm
        then (Inr (AccessToken (the (currentToken tm))), tm, [])
        else RefreshToken post' unmarshal' nowC' nowS' (others tm))"
    by (auto simp: GetToken_def validToken_def Time_Before_def Time_Add_def split: option.splits)
  have "validToken tm nowC = None"
  proof (cases "validToken tm nowC")
    case None
    then show ?thesis .
  next
    case (Some t)
    from RefreshToken_valid [OF Some, of post unmarshal nowS] assms show ?thesis by simp
  qed
  then have "currentToken tm = None \<or> tokenExpiry tm \<le> nowC + sint (refreshBuffer tm)"
    by (auto simp: validToken_None_iff)
  then have l: "nowC \<le> nowR \<longrightarrow>
      currentToken tm = None \<or> tokenExpiry tm \<le> nowR + sint (refreshBuffer tm)"
    by auto
  from eq g l show ?thesis by simp
qed

text \<open>
  The theorem at an unreachable endpoint: \<open>RefreshToken\<close> at 900 seconds, where
  \<open>token-1\<close> (expiry 1000 seconds, buffer 120 seconds) fails the test, returns the
  wrapped transport error and leaves \<open>token-1\<close> and its expiry in the manager; a
  \<open>GetToken\<close> one second later finds the token failing the test and goes to the endpoint
  again.
\<close>

theorem RefreshToken_failure_keeps_token_witness:
  "RefreshToken failingPost exampleUnmarshalToken 900000000000 900000000001 cachedManager =
     (Inl (WrapError ''failed to request access token: %w'' []
             (OtherError ''dial tcp: connection refused'')),
      cachedManager, [tokenRequest exampleConfig]) \<and>
   (900000000000 :: int) \<le> 901000000000 \<and>
   tokenExpiry cachedManager \<le> 901000000000 + sint (refreshBuffer cachedManager) \<and>
   GetToken failingPost exampleUnmarshalToken 901000000000 (\<lambda>m. m) 901000000001 901000000002
       cachedManager =
     (Inl (WrapError ''failed to request access token: %w'' []
             (OtherError ''dial tcp: connection refused'')),
      cachedManager, [tokenRequest exampleConfig])"
proof -
  have r: "RefreshToken failingPost exampleUnmarshalToken 900000000000 900000000001 cachedManager =
     (Inl (WrapError ''failed to request access token: %w'' []
             (OtherError ''dial tcp: connection refused'')),
      cachedManager, [tokenRequest exampleConfig])"
    by (simp add: RefreshToken_def validToken_def Time_Before_def Time_Add_def example_defs)
  have c: "currentToken cachedManager \<noteq> None"
    by (simp add: example_defs)
  have o: "(900000000000 :: int) \<le> 901000000000" by simp
  note t = RefreshToken_failure_keeps_token
    [OF r, where nowR = 901000000000 and post' = failingPost
       and unmarshal' = exampleUnmarshalToken and others = "\<lambda>m. m" and nowC' = 901000000001
       and nowS' = 901000000002]
  from t o c have e: "tokenExpiry cachedManager \<le> 901000000000 + sint (refreshBuffer cachedManager)"
    by blast
  have r2: "RefreshToken failingPost exampleUnmarshalToken 901000000001 901000000002 cachedManager =
     (Inl (WrapError ''failed to request access token: %w'' []
             (OtherError ''dial tcp: connection refused'')),
      cachedManager, [tokenRequest exampleConfig])"
    by (simp add: RefreshToken_def validToken_def Time_Before_def Time_Add_def example_defs)
  from t e r2 have g: "GetToken failingPost exampleUnmarshalToken 901000000000 (\<lambda>m. m)
       901000000001 901000000002 cachedManager =
     (Inl (WrapError ''failed to request access token: %w'' []
             (OtherError ''dial tcp: connection refused'')),
      cachedManager, [tokenRequest exampleConfig])"
    by simp
  from r o e g show ?thesis by simp
qed

text \<open>
  Claim C8. \<open>InvalidateToken\<close> is idempotent: a second invalidation leaves the manager
  as the first one did, with no token stored. From any starting state, two invalidations
  followed by one \<open>GetToken\<close> (running alone) send exactly one request to the token
  endpoint, and that \<open>GetToken\<close> does exactly what it does after a single invalidation.
\<close>

theorem InvalidateToken_idempotent:
  "InvalidateToken (InvalidateToken tm) = InvalidateToken tm \<and>
   currentToken (InvalidateToken tm) = None \<and>
   snd (snd (GetToken post unmarshal nowR (\<lambda>m. m) nowC nowS (InvalidateToken (InvalidateToken tm)))) =
     [tokenRequest (authConfig tm)] \<and>
   length (snd (snd (GetToken post unmarshal nowR (\<lambda>m. m) nowC nowS
                       (InvalidateToken (InvalidateToken tm))))) = 1 \<and>
   GetToken post unmarshal nowR (\<lambda>m. m) nowC nowS (InvalidateToken (InvalidateToken tm)) =
     GetToken post unmarshal nowR (\<lambda>m. m) nowC nowS (InvalidateToken tm)"
proof -
  have i: "InvalidateToken (InvalidateToken tm) = InvalidateToken tm"
    by (simp add: InvalidateToken_def)
  have n: "currentToken (InvalidateToken tm) = None"
    by (simp add: InvalidateToken_def)
  have v: "validToken (InvalidateToken tm) t = None" for t
    by (simp add: validToken_def n)
  have r: "snd (snd (GetToken post unmarshal nowR (\<lambda>m. m) nowC nowS (InvalidateToken tm))) =
     [tokenRequest (authConfig tm)]"
  proof -
    have a: "authConfig (InvalidateToken tm) = authConfig tm"
      by (simp add: InvalidateToken_def)
    have "GetToken post unmarshal nowR (\<lambda>m. m) nowC nowS (InvalidateToken tm) =
        RefreshToken post unmarshal nowC nowS (InvalidateToken tm)"
      by (simp add: GetToken_def v)
    with RefreshToken_requests [OF v, of post unmarshal nowC nowS] a show ?thesis
      by simp
  qed
  from i n r show ?thesis by simp
qed

text \<open>
  The multiplication \<open>time.Duration(tokenResp.ExpiresIn) * time.Second\<close> is exact only
  for lifetimes of at most 9223372036 seconds in absolute value.
\<close>

lemma sint_seconds:
  assumes "- 9223372036 \<le> sint (x :: 64 word)" and "sint x \<le> 9223372036"
  shows "sint (x * Second) = sint x * 1000000000"
proof -
  have "sint (x * Second) = signed_take_bit 63 (sint x * sint Second)"
    by (simp add: sint_word_ariths)
  also have "sint Second = 1000000000" by (simp add: Second_def)
  also have "signed_take_bit 63 (sint x * 1000000000) = sint x * 1000000000"
    using assms by (intro signed_take_bit_int_eq_self) simp_all
  finally show ?thesis .
qed

text \<open>
  A lifetime between \<open>-9223372036\<close> and \<open>0\<close> seconds: the token is stored and returned,
  its expiry is not after the instant of storing, and with a non-negative refresh buffer
  it fails the test at every later reading of the clock.
\<close>

lemma RefreshToken_nonpositive_lifetime:
  assumes stale: "validToken tm nowC = None"
    and post: "post (tokenRequest (authConfig tm)) = Inr resp" and ok: "\<not> IsError resp"
    and dec: "unmarshal (RespBody resp) = Inr tokenResp"
    and lo: "- 9223372036 \<le> sint (ExpiresIn tokenResp)" and hi: "sint (ExpiresIn tokenResp) \<le> 0"
    and buf: "0 \<le> sint (refreshBuffer tm)"
    and r: "RefreshToken post unmarshal nowC nowS tm = (res, tm', reqs)"
  shows "res = Inr (AccessToken tokenResp) \<and> currentToken tm' = Some tokenResp \<and>
         tokenExpiry tm' \<le> nowS \<and> (\<forall>now\<ge>nowS. validToken tm' now = None)"
proof -
  from hi have "sint (ExpiresIn tokenResp) \<le> 9223372036" by simp
  with lo have s: "sint (ExpiresIn tokenResp * Second) = sint (ExpiresIn tokenResp) * 1000000000"
    by (rule sint_seconds)
  from r stale post ok dec have res: "res = Inr (AccessToken tokenResp)"
    and tm': "tm' = tm\<lparr>currentToken := Some tokenResp,
                       tokenExpiry := nowS + sint (ExpiresIn tokenResp * Second)\<rparr>"
    by (simp_all add: RefreshToken_def Let_def Time_Add_def)
  from tm' s hi have e: "tokenExpiry tm' \<le> nowS" by simp
  from tm' have b: "refreshBuffer tm' = refreshBuffer tm" by simp
  have "\<forall>now\<ge>nowS. validToken tm' now = None"
    using e b buf by (simp add: validToken_None_iff)
  with res tm' e show ?thesis by simp
qed

text \<open>
  Claim C10 (the code differs). The answer \<open>expires_in = -9223372037\<close> is not positive,
  but \<open>time.Duration(-9223372037) * time.Second\<close> wraps around to
  \<open>9223372036709551616\<close> nanoseconds: \<open>RefreshToken\<close>, storing at 5 seconds after the
  epoch, sets the expiry some 292 years ahead, and a \<open>GetToken\<close> one hour later returns
  \<open>token-3\<close> from the cache without a request.
\<close>

theorem RefreshToken_negative_lifetime_cached:
  "sint (- 9223372037 :: 64 word) \<le> 0 \<and>
   RefreshToken okPost negativeLifetimeToken 5000000000 5000000001 (NewTokenManager exampleConfig) =
     (Inr ''token-3'',
      \<lparr>authConfig = exampleConfig,
       currentToken = Some \<lparr>TokenType = ''Bearer'', ExpiresIn = - 9223372037,
                            AccessToken = ''token-3'', Scope_t = ''service:integration''\<rparr>,
       tokenExpiry = 9223372041709551617, refreshBuffer = 120000000000\<rparr>,
      [tokenRequest exampleConfig]) \<and>
   GetToken failingPost negativeLifetimeToken 3600000000000 (\<lambda>m. m) 3600000000001 3600000000002
     \<lparr>authConfig = exampleConfig,
      currentToken = Some \<lparr>TokenType = ''Bearer'', ExpiresIn = - 9223372037,
                           AccessToken = ''token-3'', Scope_t = ''service:integration''\<rparr>,
      tokenExpiry = 9223372041709551617, refreshBuffer = 120000000000\<rparr> =
     (Inr ''token-3'',
      \<lparr>authConfig = exampleConfig,
       currentToken = Some \<lparr>TokenType = ''Bearer'', ExpiresIn = - 9223372037,
                            AccessToken = ''token-3'', Scope_t = ''service:integration''\<rparr>,
       tokenExpiry = 9223372041709551617, refreshBuffer = 120000000000\<rparr>,
      [])"
  by (simp add: RefreshToken_def GetToken_def validToken_def Time_Before_def Time_Add_def
      IsError_def negativeLifetimeToken_def example_defs Let_def)

subsection \<open>Waiting for an export\<close>

lemmas poll_defs =
  WaitForExport_def GetExportStatus_def ValidateExportID_def MaxQueryIDLength_def
  isTerminalStatus_def ExportStatusCompleted_def ExportStatusError_def EndpointNqlStatus_def
  statusEndpoint_def statusHeaders_def alwaysSubmitted_def completedAtOnce_def Let_def
  Second_def Minute_def

lemma ValidateExportID_None_iff:
  "ValidateExportID exportID = None \<longleftrightarrow> exportID \<noteq> [] \<and> length exportID \<le> 256"
  by (auto simp: ValidateExportID_def MaxQueryIDLength_def)

lemma ValidateExportID_error:
  "ValidateExportID exportID = Some e \<Longrightarrow> \<exists>f args. e = FmtError f args"
  by (auto simp: ValidateExportID_def split: if_splits)

lemma isTerminalStatus_iff:
  "isTerminalStatus s \<longleftrightarrow> s = ''COMPLETED'' \<or> s = ''ERROR''"
  by (simp add: isTerminalStatus_def ExportStatusCompleted_def ExportStatusError_def)

lemma GetExportStatus_valid:
  "ValidateExportID exportID = None \<Longrightarrow>
   GetExportStatus get k exportID =
     (get k (statusEndpoint exportID) statusHeaders, [StatusCall (statusEndpoint exportID)])"
  by (simp add: GetExportStatus_def statusEndpoint_def statusHeaders_def Let_def)

lemma pollLoop_trace_prefix:
  "pollLoop get exportID pollInterval timeout sel status k trace = Some (st, e, tr) \<Longrightarrow>
   \<exists>rest. tr = trace @ rest"
proof (induction sel arbitrary: status k trace)
  case Nil
  then show ?case by simp
next
  case (Cons c sel)
  show ?case
  proof (cases c)
    case CtxDone
    with Cons.prems show ?thesis by auto
  next
    case TickerC
    obtain r evs where g: "GetExportStatus get k exportID = (r, evs)"
      by (cases "GetExportStatus get k exportID")
    show ?thesis
    proof (cases r)
      case (Inl err)
      with Cons.prems TickerC g show ?thesis by auto
    next
      case (Inr status')
      show ?thesis
      proof (cases "isTerminalStatus (Status_e status')")
        case True
        with Cons.prems TickerC g Inr show ?thesis by auto
      next
        case False
        with Cons.prems TickerC g Inr
        have "pollLoop get exportID pollInterval timeout sel status' (Suc k)
                (trace @ TickWait pollInterval # evs) = Some (st, e, tr)"
          by simp
        from Cons.IH [OF this] show ?thesis by auto
      qed
    qed
  qed
qed

lemma pollLoop_ticks:
  assumes v: "ValidateExportID exportID = None"
  shows "(\<forall>j<n. get (k + j) (statusEndpoint exportID) statusHeaders = Inr (sts (k + j)) \<and>
             \<not> isTerminalStatus (Status_e (sts (k + j)))) \<Longrightarrow>
    pollLoop get exportID pollInterval timeout (replicate n TickerC @ rest) status k trace =
      pollLoop get exportID pollInterval timeout rest
        (if n = 0 then status else sts (k + n - 1)) (k + n)
        (trace @ pollTrace exportID pollInterval n)"
proof (induction n arbitrary: status k trace)
  case 0
  then show ?case by simp
next
  case (Suc n)
  from Suc.prems have h0: "get k (statusEndpoint exportID) statusHeaders = Inr (sts k)"
    and t0: "\<not> isTerminalStatus (Status_e (sts k))"
    by force+
  have rest: "\<forall>j<n. get (Suc k + j) (statusEndpoint exportID) statusHeaders = Inr (sts (Suc k + j)) \<and>
             \<not> isTerminalStatus (Status_e (sts (Suc k + j)))"
  proof (intro allI impI)
    fix j assume "j < n"
    then have "Suc j < Suc n" by simp
    with Suc.prems have "get (k + Suc j) (statusEndpoint exportID) statusHeaders = Inr (sts (k + Suc j)) \<and>
             \<not> isTerminalStatus (Status_e (sts (k + Suc j)))" by blast
    then show "get (Suc k + j) (statusEndpoint exportID) statusHeaders = Inr (sts (Suc k + j)) \<and>
             \<not> isTerminalStatus (Status_e (sts (Suc k + j)))" by simp
  qed
  have step: "pollLoop get exportID pollInterval timeout (replicate (Suc n) TickerC @ rest) status k trace
     = pollLoop get exportID pollInterval timeout (replicate n TickerC @ rest) (sts k) (Suc k)
         (trace @ TickWait pollInterval # [StatusCall (statusEndpoint exportID)])"
    using h0 t0 by (simp add: GetExportStatus_valid [OF v])
  show ?case
    unfolding step Suc.IH [OF rest]
    by (cases n) simp_all
qed

lemma pollLoop_timeout:
  assumes v: "ValidateExportID exportID = None"
    and h: "\<forall>j<n. get (k + j) (statusEndpoint exportID) statusHeaders = Inr (sts (k + j)) \<and>
             \<not> isTerminalStatus (Status_e (sts (k + j)))"
  shows "pollLoop get exportID pollInterval timeout (replicate n TickerC @ CtxDone # sel) status k trace =
      Some (Some (if n = 0 then status else sts (k + n - 1)),
            Some (FmtError ''timeout waiting for export to complete after %v'' [ArgDuration timeout]),
            trace @ pollTrace exportID pollInterval n)"
  using pollLoop_ticks [where get = get and sts = sts and k = k and n = n, OF v h,
      of pollInterval timeout "CtxDone # sel" status trace]
  by simp

lemma pollLoop_failed_call:
  assumes v: "ValidateExportID exportID = None"
    and h: "\<forall>j<n. get (k + j) (statusEndpoint exportID) statusHeaders = Inr (sts (k + j)) \<and>
             \<not> isTerminalStatus (Status_e (sts (k + j)))"
    and f: "get (k + n) (statusEndpoint exportID) statusHeaders = Inl err"
  shows "pollLoop get exportID pollInterval timeout (replicate n TickerC @ TickerC # sel) status k trace =
      Some (None, Some (WrapError ''failed to get export status: %w'' [] err),
            trace @ pollTrace exportID pollInterval n @
            [TickWait pollInterval, StatusCall (statusEndpoint exportID)])"
  using pollLoop_ticks [where get = get and sts = sts and k = k and n = n, OF v h,
      of pollInterval timeout "TickerC # sel" status trace] f
  by (simp add: GetExportStatus_valid [OF v])

lemma pollLoop_status_error:
  "\<not> isTerminalStatus (Status_e status) \<Longrightarrow>
   pollLoop get exportID pollInterval timeout sel status k trace = Some (Some st, e, tr) \<Longrightarrow>
   (e = None) = isTerminalStatus (Status_e st)"
proof (induction sel arbitrary: status k trace)
  case Nil
  then show ?case by simp
next
  case (Cons c sel)
  show ?case
  proof (cases c)
    case CtxDone
    with Cons.prems show ?thesis by auto
  next
    case TickerC
    obtain r evs where g: "GetExportStatus get k exportID = (r, evs)"
      by (cases "GetExportStatus get k exportID")
    show ?thesis
    proof (cases r)
      case (Inl err)
      with Cons.prems TickerC g show ?thesis by auto
    next
      case (Inr status')
      show ?thesis
      proof (cases "isTerminalStatus (Status_e status')")
        case True
        with Cons.prems TickerC g Inr show ?thesis by auto
      next
        case False
        with Cons.prems TickerC g Inr
        have "pollLoop get exportID pollInterval timeout sel status' (Suc k)
                (trace @ TickWait pollInterval # evs) = Some (Some st, e, tr)"
          by simp
        from Cons.IH [OF False this] show ?thesis .
      qed
    qed
  qed
qed

lemma WaitForExport_status_error:
  assumes w: "WaitForExport get sel exportID pollInterval timeout = Some (Some st, e, tr)"
  shows "(e = None) = isTerminalStatus (Status_e st)"
proof (cases "ValidateExportID exportID")
  case (Some err)
  with w show ?thesis by (simp add: WaitForExport_def)
next
  case None
  obtain r evs where g: "GetExportStatus get 0 exportID = (r, evs)"
    by (cases "GetExportStatus get 0 exportID")
  show ?thesis
  proof (cases r)
    case (Inl err)
    with w None g show ?thesis by (auto simp: WaitForExport_def)
  next
    case (Inr status)
    show ?thesis
    proof (cases "isTerminalStatus (Status_e status)")
      case True
      with w None g Inr show ?thesis by (auto simp: WaitForExport_def)
    next
      case False
      with w None g Inr obtain pi to where
        "pollLoop get exportID pi to sel status 1 evs = Some (Some st, e, tr)"
        by (simp add: WaitForExport_def Let_def)
      from pollLoop_status_error [OF False this] show ?thesis .
    qed
  qed
qed

lemma pollLoop_error:
  "pollLoop get exportID pollInterval timeout sel status k trace = Some (st, Some e, tr) \<Longrightarrow>
   e = FmtError ''timeout waiting for export to complete after %v'' [ArgDuration timeout] \<or>
   (\<exists>e'. e = WrapError ''failed to get export status: %w'' [] e')"
proof (induction sel arbitrary: status k trace)
  case Nil
  then show ?case by simp
next
  case (Cons c sel)
  show ?case
  proof (cases c)
    case CtxDone
    with Cons.prems show ?thesis by auto
  next
    case TickerC
    obtain r evs where g: "GetExportStatus get k exportID = (r, evs)"
      by (cases "GetExportStatus get k exportID")
    show ?thesis
    proof (cases r)
      case (Inl err)
      with Cons.prems TickerC g show ?thesis by auto
    next
      case (Inr status')
      show ?thesis
      proof (cases "isTerminalStatus (Status_e status')")
        case True
        with Cons.prems TickerC g Inr show ?thesis by auto
      next
        case False
        with Cons.prems TickerC g Inr
        have "pollLoop get exportID pollInterval timeout sel status' (Suc k)
                (trace @ TickWait pollInterval # evs) = Some (st, Some e, tr)"
          by simp
        then show ?thesis by (rule Cons.IH)
      qed
    qed
  qed
qed

lemma WaitForExport_error:
  assumes "WaitForExport get sel exportID pollInterval timeout = Some (st, Some e, tr)"
  shows "ValidateExportID exportID = Some e \<or>
     (\<exists>e'. e = WrapError ''failed to get initial export status: %w'' [] e') \<or>
     (\<exists>to. e = FmtError ''timeout waiting for export to complete after %v'' [ArgDuration to]) \<or>
     (\<exists>e'. e = WrapError ''failed to get export status: %w'' [] e')"
proof (cases "ValidateExportID exportID")
  case (Some err)
  with assms have "e = err" by (simp add: WaitForExport_def)
  with Some show ?thesis by simp
next
  case None
  obtain r evs where g: "GetExportStatus get 0 exportID = (r, evs)"
    by (cases "GetExportStatus get 0 exportID")
  show ?thesis
  proof (cases r)
    case (Inl err)
    with assms None g show ?thesis by (auto simp: WaitForExport_def)
  next
    case (Inr status)
    show ?thesis
    proof (cases "isTerminalStatus (Status_e status)")
      case True
      with assms None g Inr show ?thesis by (simp add: WaitForExport_def)
    next
      case False
      with assms None g Inr obtain pi to where
        "pollLoop get exportID pi to sel status 1 evs = Some (st, Some e, tr)"
        by (simp add: WaitForExport_def Let_def)
      from pollLoop_error [OF this] show ?thesis by blast
    qed
  qed
qed

text \<open>
  Claim C4 as stated, "for every non-empty exportID \<open>WaitForExport\<close> performs a status
  check immediately", fails: an identifier of 257 bytes is not empty, the export is
  \<open>COMPLETED\<close>, and \<open>WaitForExport\<close> returns the error of \<open>ValidateExportID\<close>
  without any status call.
\<close>

theorem WaitForExport_long_id_counterexample:
  "replicate 257 (CHR ''a'') \<noteq> [] \<and>
   completedAtOnce 0 (statusEndpoint (replicate 257 (CHR ''a''))) statusHeaders =
     Inr \<lparr>Status_e = ''COMPLETED'', ResultsFileURL = ''https://bucket.example/export.csv'',
          ErrorDescription = []\<rparr> \<and>
   WaitForExport completedAtOnce [] (replicate 257 (CHR ''a'')) 0 0 =
     Some (None,
           Some (FmtError ''export ID exceeds maximum length of %d characters'' [ArgInt 256]),
           [])"
  by (simp add: poll_defs)

text \<open>
  Claim C4, amended. For every exportID that \<open>ValidateExportID\<close> accepts (not empty and
  at most 256 bytes long), every run of \<open>WaitForExport\<close> that returns starts with a
  status call, before any tick of the ticker is waited for; and if that first call
  returns a status \<open>COMPLETED\<close> or \<open>ERROR\<close>, \<open>WaitForExport\<close> returns that status
  with a nil error after exactly one status call and no wait, whatever the selects
  would take.
\<close>

theorem WaitForExport_immediate_check:
  assumes "exportID \<noteq> []" and "length exportID \<le> 256"
  shows
    "(WaitForExport get sel exportID pollInterval timeout = Some (st, e, tr) \<longrightarrow>
        (\<exists>rest. tr = StatusCall (statusEndpoint exportID) # rest)) \<and>
     (get 0 (statusEndpoint exportID) statusHeaders = Inr status \<and>
      (Status_e status = ''COMPLETED'' \<or> Status_e status = ''ERROR'') \<longrightarrow>
        WaitForExport get sel exportID pollInterval timeout =
          Some (Some status, None, [StatusCall (statusEndpoint exportID)]))"
proof (intro conjI impI)
  from assms have v: "ValidateExportID exportID = None"
    by (simp add: ValidateExportID_None_iff)
  note g = GetExportStatus_valid [OF v, of get 0]
  {
    assume w: "WaitForExport get sel exportID pollInterval timeout = Some (st, e, tr)"
    show "\<exists>rest. tr = StatusCall (statusEndpoint exportID) # rest"
    proof (cases "get 0 (statusEndpoint exportID) statusHeaders")
      case (Inl err)
      with w v g show ?thesis by (auto simp: WaitForExport_def)
    next
      case (Inr status0)
      show ?thesis
      proof (cases "isTerminalStatus (Status_e status0)")
        case True
        with w v g Inr show ?thesis by (auto simp: WaitForExport_def)
      next
        case False
        with w v g Inr obtain pi to where
          "pollLoop get exportID pi to sel status0 1 [StatusCall (statusEndpoint exportID)] =
             Some (st, e, tr)"
          by (simp add: WaitForExport_def Let_def)
        from pollLoop_trace_prefix [OF this] show ?thesis by auto
      qed
    qed
  }
  {
    assume a: "get 0 (statusEndpoint exportID) statusHeaders = Inr status \<and>
      (Status_e status = ''COMPLETED'' \<or> Status_e status = ''ERROR'')"
    then have "isTerminalStatus (Status_e status)" by (simp add: isTerminalStatus_iff)
    with a v g show "WaitForExport get sel exportID pollInterval timeout =
          Some (Some status, None, [StatusCall (statusEndpoint exportID)])"
      by (simp add: WaitForExport_def)
  }
qed

text \<open>
  The theorem at \<open>abc123\<close>, an export that is \<open>COMPLETED\<close> at the first check.
\<close>

theorem WaitForExport_immediate_check_witness:
  "WaitForExport completedAtOnce [] ''abc123'' 0 0 =
     Some (Some \<lparr>Status_e = ''COMPLETED'', ResultsFileURL = ''https://bucket.example/export.csv'',
                  ErrorDescription = []\<rparr>,
           None, [StatusCall ''/api/v1/nql/status/abc123''])"
proof -
  let ?st = "\<lparr>Status_e = ''COMPLETED'', ResultsFileURL = ''https://bucket.example/export.csv'',
                  ErrorDescription = []\<rparr>"
  have a: "''abc123'' \<noteq> []" and b: "length ''abc123'' \<le> 256" by simp_all
  have c: "completedAtOnce 0 (statusEndpoint ''abc123'') statusHeaders = Inr ?st \<and>
      (Status_e ?st = ''COMPLETED'' \<or> Status_e ?st = ''ERROR'')"
    by (simp add: completedAtOnce_def)
  from WaitForExport_immediate_check
    [OF a b, where get = completedAtOnce and status = ?st and sel = "[]" and pollInterval = 0
       and timeout = 0] c
  show ?thesis by (simp add: statusEndpoint_def EndpointNqlStatus_def)
qed

text \<open>
  Claim C5 as stated, "if no status call returns a terminal status and none fails before
  the timeout elapses, \<open>WaitForExport\<close> returns the last observed status with the timeout
  error", fails. The status calls run under \<open>timeoutCtx\<close>: in this run the first check
  reads \<open>SUBMITTED\<close>, the ticker is taken once, and the second status call is in
  flight when the deadline passes, so it fails then, not before, with the context's
  error. \<open>WaitForExport\<close> returns through the ticker's branch: no status, and that error
  wrapped, not the timeout error. The test \<open>TestWaitForNQLExport_Timeout\<close> expects this
  outcome ("context deadline exceeded is expected when timeout occurs during polling").
\<close>

theorem WaitForExport_deadline_counterexample:
  "deadlineDuringSecondCall 0 (statusEndpoint ''abc123'') statusHeaders =
     Inr \<lparr>Status_e = ''SUBMITTED'', ResultsFileURL = [], ErrorDescription = []\<rparr> \<and>
   deadlineDuringSecondCall 1 (statusEndpoint ''abc123'') statusHeaders =
     Inl (OtherError ''context deadline exceeded'') \<and>
   WaitForExport deadlineDuringSecondCall [TickerC, CtxDone] ''abc123'' 100000000 500000000 =
     Some (None,
           Some (WrapError ''failed to get export status: %w'' []
                   (OtherError ''context deadline exceeded'')),
           [StatusCall ''/api/v1/nql/status/abc123'', TickWait 100000000,
            StatusCall ''/api/v1/nql/status/abc123''])"
  by (simp add: poll_defs deadlineDuringSecondCall_def)

text \<open>
  Claim C5, amended. In a run of \<open>WaitForExport\<close> on an accepted exportID in which the
  first \<open>n + 1\<close> status calls succeed with statuses \<open>sts 0\<close>, ..., \<open>sts n\<close> that are
  neither \<open>COMPLETED\<close> nor \<open>ERROR\<close>, and the selects take the ticker \<open>n\<close> times:
  \<^item> if the next select takes the context's \<open>Done\<close>, the run returns the last status
    read, \<open>sts n\<close>, together with the (non-nil) timeout error, after \<open>n + 1\<close> status
    calls;
  \<^item> if the next select takes the ticker again and that status call fails (be it because
    the deadline has passed), the run returns no status and the error of the call
    wrapped.
  And in any run whatever that returns a status, the error is nil exactly when that
  status is \<open>COMPLETED\<close> or \<open>ERROR\<close>: a job still running at the timeout is told apart
  from a failed job (status \<open>ERROR\<close>, nil error).
\<close>

theorem WaitForExport_timeout_keeps_last_status:
  assumes "exportID \<noteq> []" and "length exportID \<le> 256"
    and "\<forall>j\<le>n. get j (statusEndpoint exportID) statusHeaders = Inr (sts j) \<and>
               Status_e (sts j) \<noteq> ''COMPLETED'' \<and> Status_e (sts j) \<noteq> ''ERROR''"
  shows
    "WaitForExport get (replicate n TickerC @ CtxDone # sel) exportID pollInterval timeout =
       Some (Some (sts n),
             Some (FmtError ''timeout waiting for export to complete after %v''
                     [ArgDuration (if sint timeout \<le> 0 then 10 * Minute else timeout)]),
             StatusCall (statusEndpoint exportID) #
             pollTrace exportID (if sint pollInterval \<le> 0 then 5 * Second else pollInterval) n) \<and>
     (get (Suc n) (statusEndpoint exportID) statusHeaders = Inl err \<longrightarrow>
        WaitForExport get (replicate n TickerC @ TickerC # sel) exportID pollInterval timeout =
          Some (None, Some (WrapError ''failed to get export status: %w'' [] err),
                StatusCall (statusEndpoint exportID) #
                pollTrace exportID (if sint pollInterval \<le> 0 then 5 * Second else pollInterval) n @
                [TickWait (if sint pollInterval \<le> 0 then 5 * Second else pollInterval),
                 StatusCall (statusEndpoint exportID)])) \<and>
     (WaitForExport get' sel' exportID' pollInterval' timeout' = Some (Some st, e, tr) \<longrightarrow>
        (e = None) = (Status_e st = ''COMPLETED'' \<or> Status_e st = ''ERROR''))"
proof (intro conjI impI)
  from assms have v: "ValidateExportID exportID = None"
    by (simp add: ValidateExportID_None_iff)
  let ?pi = "if sint pollInterval \<le> 0 then 5 * Second else pollInterval"
  let ?to = "if sint timeout \<le> 0 then 10 * Minute else timeout"
  from assms(3) have nt: "\<And>j. j \<le> n \<Longrightarrow> get j (statusEndpoint exportID) statusHeaders = Inr (sts j) \<and>
       \<not> isTerminalStatus (Status_e (sts j))"
    by (simp add: isTerminalStatus_iff)
  then have h0: "get 0 (statusEndpoint exportID) statusHeaders = Inr (sts 0)"
    and t0: "\<not> isTerminalStatus (Status_e (sts 0))"
    by simp_all
  have rest: "\<forall>j<n. get (1 + j) (statusEndpoint exportID) statusHeaders = Inr (sts (1 + j)) \<and>
             \<not> isTerminalStatus (Status_e (sts (1 + j)))"
    using nt by simp
  have w: "WaitForExport get sel0 exportID pollInterval timeout =
      pollLoop get exportID ?pi ?to sel0 (sts 0) 1 [StatusCall (statusEndpoint exportID)]"
    for sel0
    using v h0 t0 by (simp add: WaitForExport_def GetExportStatus_valid [OF v] Let_def)
  have l: "(if n = 0 then sts 0 else sts (1 + n - 1)) = sts n"
    by simp
  show "WaitForExport get (replicate n TickerC @ CtxDone # sel) exportID pollInterval timeout =
       Some (Some (sts n), Some (FmtError ''timeout waiting for export to complete after %v''
                     [ArgDuration ?to]),
             StatusCall (statusEndpoint exportID) # pollTrace exportID ?pi n)"
    unfolding w
    using pollLoop_timeout [where k = 1 and get = get and sts = sts and n = n, OF v rest,
        of ?pi ?to sel "sts 0" "[StatusCall (statusEndpoint exportID)]"] l
    by simp
  {
    assume "get (Suc n) (statusEndpoint exportID) statusHeaders = Inl err"
    then have f: "get (1 + n) (statusEndpoint exportID) statusHeaders = Inl err" by simp
    show "WaitForExport get (replicate n TickerC @ TickerC # sel) exportID pollInterval timeout =
          Some (None, Some (WrapError ''failed to get export status: %w'' [] err),
                StatusCall (statusEndpoint exportID) # pollTrace exportID ?pi n @
                [TickWait ?pi, StatusCall (statusEndpoint exportID)])"
      unfolding w
      using pollLoop_failed_call [where k = 1 and get = get and sts = sts and n = n, OF v rest f,
          of ?pi ?to sel "sts 0" "[StatusCall (statusEndpoint exportID)]"]
      by simp
  }
next
  assume "WaitForExport get' sel' exportID' pollInterval' timeout' = Some (Some st, e, tr)"
  from WaitForExport_status_error [OF this]
  show "(e = None) = (Status_e st = ''COMPLETED'' \<or> Status_e st = ''ERROR'')"
    by (simp add: isTerminalStatus_iff)
qed

text \<open>
  The theorem at an export that stays \<open>SUBMITTED\<close>, with an interval of 100 ms and a
  timeout of 500 ms: two ticks, then the timeout; and at the run in which the deadline
  passes during the second status call.
\<close>

theorem WaitForExport_timeout_witness:
  "WaitForExport alwaysSubmitted [TickerC, TickerC, CtxDone] ''abc123'' 100000000 500000000 =
     Some (Some \<lparr>Status_e = ''SUBMITTED'', ResultsFileURL = [], ErrorDescription = []\<rparr>,
           Some (FmtError ''timeout waiting for export to complete after %v''
                   [ArgDuration 500000000]),
           [StatusCall ''/api/v1/nql/status/abc123'',
            TickWait 100000000, StatusCall ''/api/v1/nql/status/abc123'',
            TickWait 100000000, StatusCall ''/api/v1/nql/status/abc123'']) \<and>
   WaitForExport deadlineDuringSecondCall [TickerC] ''abc123'' 100000000 500000000 =
     Some (None,
           Some (WrapError ''failed to get export status: %w'' []
                   (OtherError ''context deadline exceeded'')),
           [StatusCall ''/api/v1/nql/status/abc123'', TickWait 100000000,
            StatusCall ''/api/v1/nql/status/abc123''])"
proof -
  let ?st = "\<lparr>Status_e = ''SUBMITTED'', ResultsFileURL = [], ErrorDescription = []\<rparr>"
  have a: "''abc123'' \<noteq> []" and b: "length ''abc123'' \<le> 256" by simp_all
  have c: "\<forall>j\<le>2. alwaysSubmitted j (statusEndpoint ''abc123'') statusHeaders = Inr ?st \<and>
      Status_e ?st \<noteq> ''COMPLETED'' \<and> Status_e ?st \<noteq> ''ERROR''"
    by (simp add: alwaysSubmitted_def)
  have r: "replicate 2 TickerC @ CtxDone # [] = [TickerC, TickerC, CtxDone]"
    by (simp add: numeral_2_eq_2)
  have p: "pollTrace ''abc123'' 100000000 2 =
      [TickWait 100000000, StatusCall ''/api/v1/nql/status/abc123'',
       TickWait 100000000, StatusCall ''/api/v1/nql/status/abc123'']"
    by (simp add: numeral_2_eq_2 statusEndpoint_def EndpointNqlStatus_def)
  note t = WaitForExport_timeout_keeps_last_status
    [where get = alwaysSubmitted and sts = "\<lambda>j. ?st" and n = 2 and exportID = "''abc123''"
       and sel = "[]" and pollInterval = 100000000 and timeout = 500000000]
  from t [OF a b c, THEN conjunct1] r p
  have p1: "WaitForExport alwaysSubmitted [TickerC, TickerC, CtxDone] ''abc123'' 100000000
       500000000 =
     Some (Some ?st,
           Some (FmtError ''timeout waiting for export to complete after %v''
                   [ArgDuration 500000000]),
           [StatusCall ''/api/v1/nql/status/abc123'',
            TickWait 100000000, StatusCall ''/api/v1/nql/status/abc123'',
            TickWait 100000000, StatusCall ''/api/v1/nql/status/abc123''])"
    by (simp add: statusEndpoint_def EndpointNqlStatus_def)
  have c0: "\<forall>j\<le>0. deadlineDuringSecondCall j (statusEndpoint ''abc123'') statusHeaders = Inr ?st \<and>
      Status_e ?st \<noteq> ''COMPLETED'' \<and> Status_e ?st \<noteq> ''ERROR''"
    by (simp add: deadlineDuringSecondCall_def)
  have f: "deadlineDuringSecondCall (Suc 0) (statusEndpoint ''abc123'') statusHeaders =
      Inl (OtherError ''context deadline exceeded'')"
    by (simp add: deadlineDuringSecondCall_def)
  note u = WaitForExport_timeout_keeps_last_status
    [where get = deadlineDuringSecondCall and sts = "\<lambda>j. ?st" and n = 0
       and exportID = "''abc123''" and sel = "[]" and pollInterval = 100000000
       and timeout = 500000000 and err = "OtherError ''context deadline exceeded''"]
  from u [OF a b c0, THEN conjunct2, THEN conjunct1] f
  have p2: "WaitForExport deadlineDuringSecondCall [TickerC] ''abc123'' 100000000 500000000 =
     Some (None,
           Some (WrapError ''failed to get export status: %w'' []
                   (OtherError ''context deadline exceeded'')),
           [StatusCall ''/api/v1/nql/status/abc123'', TickWait 100000000,
            StatusCall ''/api/v1/nql/status/abc123''])"
    by (simp add: statusEndpoint_def EndpointNqlStatus_def)
  from p1 p2 show ?thesis by simp
qed

text \<open>
  Claim C9 as stated, "every error returned by \<open>WaitForExport\<close> is a wrapped error",
  fails: the timeout error and the validation error are built by \<open>fmt.Errorf\<close> without
  \<open>%w\<close> and wrap nothing.
\<close>

theorem WaitForExport_unwrapped_error_counterexample:
  "WaitForExport alwaysSubmitted [CtxDone] ''abc123'' 0 0 =
     Some (Some \<lparr>Status_e = ''SUBMITTED'', ResultsFileURL = [], ErrorDescription = []\<rparr>,
           Some (FmtError ''timeout waiting for export to complete after %v''
                   [ArgDuration 600000000000]),
           [StatusCall ''/api/v1/nql/status/abc123'']) \<and>
   Unwrap (FmtError ''timeout waiting for export to complete after %v''
             [ArgDuration 600000000000]) = None \<and>
   WaitForExport alwaysSubmitted [CtxDone] [] 0 0 =
     Some (None, Some (FmtError ''export ID cannot be empty'' []), []) \<and>
   Unwrap (FmtError ''export ID cannot be empty'' []) = None"
  by (simp add: poll_defs)

text \<open>
  Claim C9, amended. Each of the nine classification predicates returns false on every
  error whose dynamic type is not \<open>*APIError\<close> (\<open>nil\<close> included), in particular on an
  error that wraps an \<open>*APIError\<close>. Every error returned by \<open>WaitForExport\<close> is built
  by \<open>fmt.Errorf\<close>: it is the error of \<open>ValidateExportID\<close> or the timeout error, which
  wrap nothing, or it wraps the error of the first or of a later status call (\<open>%w\<close>). It
  is never an \<open>*APIError\<close> itself, so all nine predicates return false on it.
\<close>

theorem predicates_false_off_APIError:
  "((\<forall>p. err \<noteq> Some (APIErrorPtr p)) \<longrightarrow> allPredicatesFalse err) \<and>
   allPredicatesFalse (Some (WrapError f args (APIErrorPtr p))) \<and>
   (WaitForExport get sel exportID pollInterval timeout = Some (st, Some e, tr) \<longrightarrow>
      (ValidateExportID exportID = Some e \<or>
       (\<exists>e'. e = WrapError ''failed to get initial export status: %w'' [] e') \<or>
       (\<exists>to. e = FmtError ''timeout waiting for export to complete after %v'' [ArgDuration to]) \<or>
       (\<exists>e'. e = WrapError ''failed to get export status: %w'' [] e')) \<and>
      (\<forall>p. e \<noteq> APIErrorPtr p) \<and> allPredicatesFalse (Some e))"
proof (intro conjI impI)
  assume "\<forall>p. err \<noteq> Some (APIErrorPtr p)"
  then show "allPredicatesFalse err" by (rule allPredicatesFalse_not_APIError)
next
  show "allPredicatesFalse (Some (WrapError f args (APIErrorPtr p)))"
    by (rule allPredicatesFalse_not_APIError) simp
next
  assume w: "WaitForExport get sel exportID pollInterval timeout = Some (st, Some e, tr)"
  from WaitForExport_error [OF w]
  show s: "ValidateExportID exportID = Some e \<or>
       (\<exists>e'. e = WrapError ''failed to get initial export status: %w'' [] e') \<or>
       (\<exists>to. e = FmtError ''timeout waiting for export to complete after %v'' [ArgDuration to]) \<or>
       (\<exists>e'. e = WrapError ''failed to get export status: %w'' [] e')" .
  with ValidateExportID_error [of exportID e] show n: "\<forall>p. e \<noteq> APIErrorPtr p" by auto
  then have "\<forall>p. Some e \<noteq> Some (APIErrorPtr p)" by simp
  then show "allPredicatesFalse (Some e)" by (rule allPredicatesFalse_not_APIError)
qed

text \<open>
  The theorem at \<open>nil\<close> and at a run whose first status call is answered 503: the
  \<open>*APIError\<close> is transient, the error \<open>WaitForExport\<close> returns wraps it, and no
  predicate holds for that.
\<close>

theorem predicates_false_off_APIError_witness:
  "allPredicatesFalse None \<and>
   IsTransient (Some (APIErrorPtr (Some serviceUnavailable))) = Inr True \<and>
   WaitForExport unavailable [] ''abc123'' 0 0 =
     Some (None,
           Some (WrapError ''failed to get initial export status: %w'' []
                   (APIErrorPtr (Some serviceUnavailable))),
           [StatusCall ''/api/v1/nql/status/abc123'']) \<and>
   allPredicatesFalse
     (Some (WrapError ''failed to get initial export status: %w'' []
              (APIErrorPtr (Some serviceUnavailable))))"
proof -
  let ?e = "WrapError ''failed to get initial export status: %w'' []
              (APIErrorPtr (Some serviceUnavailable))"
  have n: "\<forall>p. (None :: error option) \<noteq> Some (APIErrorPtr p)" by simp
  have t: "IsTransient (Some (APIErrorPtr (Some serviceUnavailable))) = Inr True"
    by (simp add: Is_defs statusCodeIs_simps serviceUnavailable_def
        StatusServiceUnavailable_def)
  have w: "WaitForExport unavailable [] ''abc123'' 0 0 =
     Some (None, Some ?e, [StatusCall ''/api/v1/nql/status/abc123''])"
    by (simp add: poll_defs unavailable_def)
  note c = predicates_false_off_APIError
    [where err = None and get = unavailable and sel = "[]" and exportID = "''abc123''"
       and pollInterval = 0 and timeout = 0 and st = None and e = ?e
       and tr = "[StatusCall ''/api/v1/nql/status/abc123'']"]
  from c n have p1: "allPredicatesFalse None" by blast
  from c w have p2: "allPredicatesFalse (Some ?e)" by blast
  from p1 t w p2 show ?thesis by simp
qed

end
